theory Spec2Isabelle
  imports Main "HOL-Library.AList"
begin

section \<open>Python values used by the music manager\<close>

text \<open>
  A Python \<open>str\<close> is a sequence of Unicode code points; it is modelled as a list of
  natural numbers. \<open>str\<close> turns an ASCII literal into such a list, so that the
  program's ASCII texts stay readable.
\<close>

type_synonym pystr = "nat list"

definition str :: "string \<Rightarrow> pystr" where
  "str s = map of_char s"

text \<open>
  \<open>str.isspace\<close> for one code point: the 29 code points for which CPython 3 answers
  True.
\<close>

definition isspace :: "nat \<Rightarrow> bool" where
  "isspace c \<longleftrightarrow>
     (9 \<le> c \<and> c \<le> 13) \<or> (28 \<le> c \<and> c \<le> 32) \<or> c = 133 \<or> c = 160 \<or> c = 5760 \<or>
     (8192 \<le> c \<and> c \<le> 8202) \<or> c = 8232 \<or> c = 8233 \<or> c = 8239 \<or> c = 8287 \<or>
     c = 12288"

text \<open>\<open>s.strip()\<close>: leading and trailing whitespace removed.\<close>

definition strip :: "pystr \<Rightarrow> pystr" where
  "strip s = rev (dropWhile isspace (rev (dropWhile isspace s)))"

text \<open>
  \<open>s.lower()\<close> replaces every code point by its lowercase mapping in the Unicode
  character database; the tables below are those of Unicode 14.0, as CPython 3.11
  carries them, written as ranges in ascending order. A range \<open>(lo, hi, step, tlo)\<close> of
  the mapping holds the code points \<open>lo\<close>, \<open>lo + step\<close>, ... up to \<open>hi\<close>, and maps
  \<open>lo\<close> to \<open>tlo\<close> and the others at the same distance; a code point in no range is
  its own lowercase.
\<close>

fun lower_lookup :: "(nat \<times> nat \<times> nat \<times> nat) list \<Rightarrow> nat \<Rightarrow> nat" where
  "lower_lookup [] c = c"
| "lower_lookup ((lo, hi, step, tlo) # rs) c =
     (if c < lo then c
      else if c \<le> hi \<and> (c - lo) mod step = 0 then tlo + (c - lo)
      else lower_lookup rs c)"

fun in_ranges :: "(nat \<times> nat) list \<Rightarrow> nat \<Rightarrow> bool" where
  "in_ranges [] c = False"
| "in_ranges ((lo, hi) # rs) c =
     (if c < lo then False else if c \<le> hi then True else in_ranges rs c)"

definition lower_table :: "(nat \<times> nat \<times> nat \<times> nat) list" where
  "lower_table =
     [(192, 214, 1, 224), (216, 222, 1, 248), (256, 302, 2, 257), (306, 310, 2, 307),
      (313, 327, 2, 314), (330, 374, 2, 331), (376, 376, 1, 255), (377, 381, 2, 378),
      (385, 385, 1, 595), (386, 388, 2, 387), (390, 390, 1, 596), (391, 391, 1, 392),
      (393, 394, 1, 598), (395, 395, 1, 396), (398, 398, 1, 477), (399, 399, 1, 601),
      (400, 400, 1, 603), (401, 401, 1, 402), (403, 403, 1, 608), (404, 404, 1, 611),
      (406, 406, 1, 617), (407, 407, 1, 616), (408, 408, 1, 409), (412, 412, 1, 623),
      (413, 413, 1, 626), (415, 415, 1, 629), (416, 420, 2, 417), (422, 422, 1, 640),
      (423, 423, 1, 424), (425, 425, 1, 643), (428, 428, 1, 429), (430, 430, 1, 648),
      (431, 431, 1, 432), (433, 434, 1, 650), (435, 437, 2, 436), (439, 439, 1, 658),
      (440, 440, 1, 441), (444, 444, 1, 445), (452, 452, 1, 454), (453, 453, 1, 454),
      (455, 455, 1, 457), (456, 456, 1, 457), (458, 458, 1, 460), (459, 475, 2, 460),
      (478, 494, 2, 479), (497, 497, 1, 499), (498, 500, 2, 499), (502, 502, 1, 405),
      (503, 503, 1, 447), (504, 542, 2, 505), (544, 544, 1, 414), (546, 562, 2, 547),
      (570, 570, 1, 11365), (571, 571, 1, 572), (573, 573, 1, 410), (574, 574, 1, 11366),
      (577, 577, 1, 578), (579, 579, 1, 384), (580, 580, 1, 649), (581, 581, 1, 652),
      (582, 590, 2, 583), (880, 882, 2, 881), (886, 886, 1, 887), (895, 895, 1, 1011),
      (902, 902, 1, 940), (904, 906, 1, 941), (908, 908, 1, 972), (910, 911, 1, 973),
      (913, 929, 1, 945), (932, 939, 1, 964), (975, 975, 1, 983), (984, 1006, 2, 985),
      (1012, 1012, 1, 952), (1015, 1015, 1, 1016), (1017, 1017, 1, 1010), (1018, 1018, 1, 1019),
      (1021, 1023, 1, 891), (1024, 1039, 1, 1104), (1040, 1071, 1, 1072), (1120, 1152, 2, 1121),
      (1162, 1214, 2, 1163), (1216, 1216, 1, 1231), (1217, 1229, 2, 1218), (1232, 1326, 2, 1233),
      (1329, 1366, 1, 1377), (4256, 4293, 1, 11520), (4295, 4295, 1, 11559),
      (4301, 4301, 1, 11565), (5024, 5103, 1, 43888), (5104, 5109, 1, 5112),
      (7312, 7354, 1, 4304), (7357, 7359, 1, 4349), (7680, 7828, 2, 7681), (7838, 7838, 1, 223),
      (7840, 7934, 2, 7841), (7944, 7951, 1, 7936), (7960, 7965, 1, 7952), (7976, 7983, 1, 7968),
      (7992, 7999, 1, 7984), (8008, 8013, 1, 8000), (8025, 8031, 2, 8017), (8040, 8047, 1, 8032),
      (8072, 8079, 1, 8064), (8088, 8095, 1, 8080), (8104, 8111, 1, 8096), (8120, 8121, 1, 8112),
      (8122, 8123, 1, 8048), (8124, 8124, 1, 8115), (8136, 8139, 1, 8050), (8140, 8140, 1, 8131),
      (8152, 8153, 1, 8144), (8154, 8155, 1, 8054), (8168, 8169, 1, 8160), (8170, 8171, 1, 8058),
      (8172, 8172, 1, 8165), (8184, 8185, 1, 8056), (8186, 8187, 1, 8060), (8188, 8188, 1, 8179),
      (8486, 8486, 1, 969), (8490, 8490, 1, 107), (8491, 8491, 1, 229), (8498, 8498, 1, 8526),
      (8544, 8559, 1, 8560), (8579, 8579, 1, 8580), (9398, 9423, 1, 9424),
      (11264, 11311, 1, 11312), (11360, 11360, 1, 11361), (11362, 11362, 1, 619),
      (11363, 11363, 1, 7549), (11364, 11364, 1, 637), (11367, 11371, 2, 11368),
      (11373, 11373, 1, 593), (11374, 11374, 1, 625), (11375, 11375, 1, 592),
      (11376, 11376, 1, 594), (11378, 11378, 1, 11379), (11381, 11381, 1, 11382),
      (11390, 11391, 1, 575), (11392, 11490, 2, 11393), (11499, 11501, 2, 11500),
      (11506, 11506, 1, 11507), (42560, 42604, 2, 42561), (42624, 42650, 2, 42625),
      (42786, 42798, 2, 42787), (42802, 42862, 2, 42803), (42873, 42875, 2, 42874),
      (42877, 42877, 1, 7545), (42878, 42886, 2, 42879), (42891, 42891, 1, 42892),
      (42893, 42893, 1, 613), (42896, 42898, 2, 42897), (42902, 42920, 2, 42903),
      (42922, 42922, 1, 614), (42923, 42923, 1, 604), (42924, 42924, 1, 609),
      (42925, 42925, 1, 620), (42926, 42926, 1, 618), (42928, 42928, 1, 670),
      (42929, 42929, 1, 647), (42930, 42930, 1, 669), (42931, 42931, 1, 43859),
      (42932, 42946, 2, 42933), (42948, 42948, 1, 42900), (42949, 42949, 1, 642),
      (42950, 42950, 1, 7566), (42951, 42953, 2, 42952), (42960, 42960, 1, 42961),
      (42966, 42968, 2, 42967), (42997, 42997, 1, 42998), (65313, 65338, 1, 65345),
      (66560, 66599, 1, 66600), (66736, 66771, 1, 66776), (66928, 66938, 1, 66967),
      (66940, 66954, 1, 66979), (66956, 66962, 1, 66995), (66964, 66965, 1, 67003),
      (68736, 68786, 1, 68800), (71840, 71871, 1, 71872), (93760, 93791, 1, 93792),
      (125184, 125217, 1, 125218)]"

text \<open>The code points with the property Cased.\<close>

definition cased_table :: "(nat \<times> nat) list" where
  "cased_table =
     [(65, 90), (97, 122), (170, 170), (181, 181), (186, 186), (192, 214), (216, 246),
      (248, 442), (444, 447), (452, 659), (661, 696), (704, 705), (736, 740), (837, 837),
      (880, 883), (886, 887), (890, 893), (895, 895), (902, 902), (904, 906), (908, 908),
      (910, 929), (931, 1013), (1015, 1153), (1162, 1327), (1329, 1366), (1376, 1416),
      (4256, 4293), (4295, 4295), (4301, 4301), (4304, 4346), (4349, 4351), (5024, 5109),
      (5112, 5117), (7296, 7304), (7312, 7354), (7357, 7359), (7424, 7615), (7680, 7957),
      (7960, 7965), (7968, 8005), (8008, 8013), (8016, 8023), (8025, 8025), (8027, 8027),
      (8029, 8029), (8031, 8061), (8064, 8116), (8118, 8124), (8126, 8126), (8130, 8132),
      (8134, 8140), (8144, 8147), (8150, 8155), (8160, 8172), (8178, 8180), (8182, 8188),
      (8305, 8305), (8319, 8319), (8336, 8348), (8450, 8450), (8455, 8455), (8458, 8467),
      (8469, 8469), (8473, 8477), (8484, 8484), (8486, 8486), (8488, 8488), (8490, 8493),
      (8495, 8500), (8505, 8505), (8508, 8511), (8517, 8521), (8526, 8526), (8544, 8575),
      (8579, 8580), (9398, 9449), (11264, 11492), (11499, 11502), (11506, 11507), (11520, 11557),
      (11559, 11559), (11565, 11565), (42560, 42605), (42624, 42653), (42786, 42887),
      (42891, 42894), (42896, 42954), (42960, 42961), (42963, 42963), (42965, 42969),
      (42997, 42998), (43000, 43002), (43824, 43866), (43868, 43880), (43888, 43967),
      (64256, 64262), (64275, 64279), (65313, 65338), (65345, 65370), (66560, 66639),
      (66736, 66771), (66776, 66811), (66928, 66938), (66940, 66954), (66956, 66962),
      (66964, 66965), (66967, 66977), (66979, 66993), (66995, 67001), (67003, 67004),
      (67456, 67456), (67459, 67461), (67463, 67504), (67506, 67514), (68736, 68786),
      (68800, 68850), (71840, 71903), (93760, 93823), (119808, 119892), (119894, 119964),
      (119966, 119967), (119970, 119970), (119973, 119974), (119977, 119980), (119982, 119993),
      (119995, 119995), (119997, 120003), (120005, 120069), (120071, 120074), (120077, 120084),
      (120086, 120092), (120094, 120121), (120123, 120126), (120128, 120132), (120134, 120134),
      (120138, 120144), (120146, 120485), (120488, 120512), (120514, 120538), (120540, 120570),
      (120572, 120596), (120598, 120628), (120630, 120654), (120656, 120686), (120688, 120712),
      (120714, 120744), (120746, 120770), (120772, 120779), (122624, 122633), (122635, 122654),
      (125184, 125251), (127280, 127305), (127312, 127337), (127344, 127369)]"

text \<open>The code points with the property Case_Ignorable.\<close>

definition case_ignorable_table :: "(nat \<times> nat) list" where
  "case_ignorable_table =
     [(39, 39), (46, 46), (58, 58), (94, 94), (96, 96), (168, 168), (173, 173), (175, 175),
      (180, 180), (183, 184), (688, 879), (884, 885), (890, 890), (900, 901), (903, 903),
      (1155, 1161), (1369, 1369), (1375, 1375), (1425, 1469), (1471, 1471), (1473, 1474),
      (1476, 1477), (1479, 1479), (1524, 1524), (1536, 1541), (1552, 1562), (1564, 1564),
      (1600, 1600), (1611, 1631), (1648, 1648), (1750, 1757), (1759, 1768), (1770, 1773),
      (1807, 1807), (1809, 1809), (1840, 1866), (1958, 1968), (2027, 2037), (2042, 2042),
      (2045, 2045), (2070, 2093), (2137, 2139), (2184, 2184), (2192, 2193), (2200, 2207),
      (2249, 2306), (2362, 2362), (2364, 2364), (2369, 2376), (2381, 2381), (2385, 2391),
      (2402, 2403), (2417, 2417), (2433, 2433), (2492, 2492), (2497, 2500), (2509, 2509),
      (2530, 2531), (2558, 2558), (2561, 2562), (2620, 2620), (2625, 2626), (2631, 2632),
      (2635, 2637), (2641, 2641), (2672, 2673), (2677, 2677), (2689, 2690), (2748, 2748),
      (2753, 2757), (2759, 2760), (2765, 2765), (2786, 2787), (2810, 2815), (2817, 2817),
      (2876, 2876), (2879, 2879), (2881, 2884), (2893, 2893), (2901, 2902), (2914, 2915),
      (2946, 2946), (3008, 3008), (3021, 3021), (3072, 3072), (3076, 3076), (3132, 3132),
      (3134, 3136), (3142, 3144), (3146, 3149), (3157, 3158), (3170, 3171), (3201, 3201),
      (3260, 3260), (3263, 3263), (3270, 3270), (3276, 3277), (3298, 3299), (3328, 3329),
      (3387, 3388), (3393, 3396), (3405, 3405), (3426, 3427), (3457, 3457), (3530, 3530),
      (3538, 3540), (3542, 3542), (3633, 3633), (3636, 3642), (3654, 3662), (3761, 3761),
      (3764, 3772), (3782, 3782), (3784, 3789), (3864, 3865), (3893, 3893), (3895, 3895),
      (3897, 3897), (3953, 3966), (3968, 3972), (3974, 3975), (3981, 3991), (3993, 4028),
      (4038, 4038), (4141, 4144), (4146, 4151), (4153, 4154), (4157, 4158), (4184, 4185),
      (4190, 4192), (4209, 4212), (4226, 4226), (4229, 4230), (4237, 4237), (4253, 4253),
      (4348, 4348), (4957, 4959), (5906, 5908), (5938, 5939), (5970, 5971), (6002, 6003),
      (6068, 6069), (6071, 6077), (6086, 6086), (6089, 6099), (6103, 6103), (6109, 6109),
      (6155, 6159), (6211, 6211), (6277, 6278), (6313, 6313), (6432, 6434), (6439, 6440),
      (6450, 6450), (6457, 6459), (6679, 6680), (6683, 6683), (6742, 6742), (6744, 6750),
      (6752, 6752), (6754, 6754), (6757, 6764), (6771, 6780), (6783, 6783), (6823, 6823),
      (6832, 6862), (6912, 6915), (6964, 6964), (6966, 6970), (6972, 6972), (6978, 6978),
      (7019, 7027), (7040, 7041), (7074, 7077), (7080, 7081), (7083, 7085), (7142, 7142),
      (7144, 7145), (7149, 7149), (7151, 7153), (7212, 7219), (7222, 7223), (7288, 7293),
      (7376, 7378), (7380, 7392), (7394, 7400), (7405, 7405), (7412, 7412), (7416, 7417),
      (7468, 7530), (7544, 7544), (7579, 7679), (8125, 8125), (8127, 8129), (8141, 8143),
      (8157, 8159), (8173, 8175), (8189, 8190), (8203, 8207), (8216, 8217), (8228, 8228),
      (8231, 8231), (8234, 8238), (8288, 8292), (8294, 8303), (8305, 8305), (8319, 8319),
      (8336, 8348), (8400, 8432), (11388, 11389), (11503, 11505), (11631, 11631), (11647, 11647),
      (11744, 11775), (11823, 11823), (12293, 12293), (12330, 12333), (12337, 12341),
      (12347, 12347), (12441, 12446), (12540, 12542), (40981, 40981), (42232, 42237),
      (42508, 42508), (42607, 42610), (42612, 42621), (42623, 42623), (42652, 42655),
      (42736, 42737), (42752, 42785), (42864, 42864), (42888, 42890), (42994, 42996),
      (43000, 43001), (43010, 43010), (43014, 43014), (43019, 43019), (43045, 43046),
      (43052, 43052), (43204, 43205), (43232, 43249), (43263, 43263), (43302, 43309),
      (43335, 43345), (43392, 43394), (43443, 43443), (43446, 43449), (43452, 43453),
      (43471, 43471), (43493, 43494), (43561, 43566), (43569, 43570), (43573, 43574),
      (43587, 43587), (43596, 43596), (43632, 43632), (43644, 43644), (43696, 43696),
      (43698, 43700), (43703, 43704), (43710, 43711), (43713, 43713), (43741, 43741),
      (43756, 43757), (43763, 43764), (43766, 43766), (43867, 43871), (43881, 43883),
      (44005, 44005), (44008, 44008), (44013, 44013), (64286, 64286), (64434, 64450),
      (65024, 65039), (65043, 65043), (65056, 65071), (65106, 65106), (65109, 65109),
      (65279, 65279), (65287, 65287), (65294, 65294), (65306, 65306), (65342, 65342),
      (65344, 65344), (65392, 65392), (65438, 65439), (65507, 65507), (65529, 65531),
      (66045, 66045), (66272, 66272), (66422, 66426), (67456, 67461), (67463, 67504),
      (67506, 67514), (68097, 68099), (68101, 68102), (68108, 68111), (68152, 68154),
      (68159, 68159), (68325, 68326), (68900, 68903), (69291, 69292), (69446, 69456),
      (69506, 69509), (69633, 69633), (69688, 69702), (69744, 69744), (69747, 69748),
      (69759, 69761), (69811, 69814), (69817, 69818), (69821, 69821), (69826, 69826),
      (69837, 69837), (69888, 69890), (69927, 69931), (69933, 69940), (70003, 70003),
      (70016, 70017), (70070, 70078), (70089, 70092), (70095, 70095), (70191, 70193),
      (70196, 70196), (70198, 70199), (70206, 70206), (70367, 70367), (70371, 70378),
      (70400, 70401), (70459, 70460), (70464, 70464), (70502, 70508), (70512, 70516),
      (70712, 70719), (70722, 70724), (70726, 70726), (70750, 70750), (70835, 70840),
      (70842, 70842), (70847, 70848), (70850, 70851), (71090, 71093), (71100, 71101),
      (71103, 71104), (71132, 71133), (71219, 71226), (71229, 71229), (71231, 71232),
      (71339, 71339), (71341, 71341), (71344, 71349), (71351, 71351), (71453, 71455),
      (71458, 71461), (71463, 71467), (71727, 71735), (71737, 71738), (71995, 71996),
      (71998, 71998), (72003, 72003), (72148, 72151), (72154, 72155), (72160, 72160),
      (72193, 72202), (72243, 72248), (72251, 72254), (72263, 72263), (72273, 72278),
      (72281, 72283), (72330, 72342), (72344, 72345), (72752, 72758), (72760, 72765),
      (72767, 72767), (72850, 72871), (72874, 72880), (72882, 72883), (72885, 72886),
      (73009, 73014), (73018, 73018), (73020, 73021), (73023, 73029), (73031, 73031),
      (73104, 73105), (73109, 73109), (73111, 73111), (73459, 73460), (78896, 78904),
      (92912, 92916), (92976, 92982), (92992, 92995), (94031, 94031), (94095, 94111),
      (94176, 94177), (94179, 94180), (110576, 110579), (110581, 110587), (110589, 110590),
      (113821, 113822), (113824, 113827), (118528, 118573), (118576, 118598), (119143, 119145),
      (119155, 119170), (119173, 119179), (119210, 119213), (119362, 119364), (121344, 121398),
      (121403, 121452), (121461, 121461), (121476, 121476), (121499, 121503), (121505, 121519),
      (122880, 122886), (122888, 122904), (122907, 122913), (122915, 122916), (122918, 122922),
      (123184, 123197), (123566, 123566), (123628, 123631), (125136, 125142), (125252, 125259),
      (127995, 127999), (917505, 917505), (917536, 917631), (917760, 917999)]"

definition cased :: "nat \<Rightarrow> bool" where
  "cased c = in_ranges cased_table c"

definition case_ignorable :: "nat \<Rightarrow> bool" where
  "case_ignorable c = in_ranges case_ignorable_table c"

text \<open>
  The lowercase of one code point that is not the capital sigma: the ASCII letters A to
  Z move by 32, the capital I with a dot gives two code points, the others are looked
  up.
\<close>

definition lower_char :: "nat \<Rightarrow> nat" where
  "lower_char c = (if 65 \<le> c \<and> c \<le> 90 then c + 32 else c)"

definition tolower :: "nat \<Rightarrow> pystr" where
  "tolower c =
     (if c < 128 then [lower_char c]
      else if c = 304 then [105, 775]
      else [lower_lookup lower_table c])"

text \<open>
  The capital sigma (931) becomes the final small sigma (962) when the nearest code
  point before it that is not case-ignorable is cased and the nearest such code point
  after it, if there is one, is not cased; otherwise it becomes the small sigma (963).
  \<open>before\<close> holds the code points already passed, the nearest first.
\<close>

definition final_sigma :: "pystr \<Rightarrow> pystr \<Rightarrow> bool" where
  "final_sigma before rest \<longleftrightarrow>
     (case dropWhile case_ignorable before of [] \<Rightarrow> False | c # _ \<Rightarrow> cased c) \<and>
     (case dropWhile case_ignorable rest of [] \<Rightarrow> True | c # _ \<Rightarrow> \<not> cased c)"

fun lower_from :: "pystr \<Rightarrow> pystr \<Rightarrow> pystr" where
  "lower_from before [] = []"
| "lower_from before (c # rest) =
     (if c = 931 then [if final_sigma before rest then 962 else 963] else tolower c) @
     lower_from (c # before) rest"

definition lower :: "pystr \<Rightarrow> pystr" where
  "lower s = lower_from [] s"

text \<open>\<open>s.split(sep)\<close> for a separator of one code point: never an empty list.\<close>

fun split :: "nat \<Rightarrow> pystr \<Rightarrow> pystr list" where
  "split sep [] = [[]]"
| "split sep (c # cs) =
     (if c = sep then [] # split sep cs
      else (case split sep cs of
              [] \<Rightarrow> [[c]]
            | p # ps \<Rightarrow> (c # p) # ps))"

text \<open>Decimal digits of a natural number, most significant first.\<close>

fun dec :: "nat \<Rightarrow> pystr" where
  "dec n = (if n < 10 then [48 + n] else dec (n div 10) @ [48 + n mod 10])"

declare dec.simps [simp del]

text \<open>
  Zero-filled integer formatting, as the format specification \<open>02d\<close> of an
  f-string and the conversion \<open>%06d\<close> do it for the width \<open>w\<close>: the sign first,
  then the decimal digits, filled with zeros on the left up to the total width.
\<close>

definition format_0d :: "nat \<Rightarrow> int \<Rightarrow> pystr" where
  "format_0d w n =
     (if n < 0
      then 45 # replicate (w - 1 - length (dec (nat (- n)))) 48 @ dec (nat (- n))
      else replicate (w - length (dec (nat n))) 48 @ dec (nat n))"

text \<open>The \<open>%d\<close> conversion: the sign and the decimal digits, no padding.\<close>

definition format_d :: "int \<Rightarrow> pystr" where
  "format_d n = (if n < 0 then 45 # dec (nat (- n)) else dec (nat n))"

subsection \<open>Exceptions\<close>

text \<open>
  The texts of the \<open>ValueError\<close>s the program raises are kept apart by a constructor
  each; the two that quote their input carry it.
\<close>

datatype message =
    EmptyTitle            \<comment> \<open>the title must not be empty\<close>
  | EmptyArtist           \<comment> \<open>the artist must not be empty\<close>
  | NonPositiveDuration   \<comment> \<open>the duration must be positive\<close>
  | BadYear               \<comment> \<open>incorrect year\<close>
  | BadDurationFormat pystr  \<comment> \<open>wrong duration format, with the text\<close>
  | InvalidLiteral pystr     \<comment> \<open>invalid literal for int() with base 10\<close>

datatype py_error =
    ValueError message
  | KeyError pystr
  | TypeError
  | AttributeError
  | OverflowError
  | FileNotFoundError
  | JSONDecodeError
  | OSError

text \<open>
  \<open>int(s)\<close> for a string, base ten: whitespace around the number is dropped, one sign
  is allowed, and single underscores may stand between digits. The whitespace \<open>int\<close>
  drops is not that of \<open>strip\<close>: of the ASCII range only tab, line feed, vertical tab,
  form feed, carriage return and space. The model reads the ASCII digits; the decimal
  digits of other scripts, which Python reads too, are outside it, and so is the limit
  on the number of digits that newer interpreters put on the conversion.
\<close>

definition isdigit :: "nat \<Rightarrow> bool" where
  "isdigit c \<longleftrightarrow> 48 \<le> c \<and> c \<le> 57"

definition int_space :: "nat \<Rightarrow> bool" where
  "int_space c \<longleftrightarrow> isspace c \<and> \<not> (28 \<le> c \<and> c \<le> 31)"

fun int_digits :: "nat \<Rightarrow> pystr \<Rightarrow> nat option" where
  "int_digits acc [] = Some acc"
| "int_digits acc (c # cs) =
     (if isdigit c then int_digits (10 * acc + (c - 48)) cs
      else if c = 95 then
        (case cs of
           [] \<Rightarrow> None
         | d # ds \<Rightarrow> if isdigit d then int_digits (10 * acc + (d - 48)) ds else None)
      else None)"

definition int_unsigned :: "pystr \<Rightarrow> nat option" where
  "int_unsigned s =
     (case s of
        [] \<Rightarrow> None
      | c # cs \<Rightarrow> if isdigit c then int_digits (c - 48) cs else None)"

definition py_int :: "pystr \<Rightarrow> py_error + int" where
  "py_int s =
     (let t = rev (dropWhile int_space (rev (dropWhile int_space s)));
          r = (case t of
                 [] \<Rightarrow> None
               | c # cs \<Rightarrow>
                   if c = 45 then map_option (\<lambda>n. - int n) (int_unsigned cs)
                   else if c = 43 then map_option int (int_unsigned cs)
                   else map_option int (int_unsigned t))
      in case r of None \<Rightarrow> Inl (ValueError (InvalidLiteral s)) | Some n \<Rightarrow> Inr n)"

subsection \<open>JSON documents\<close>

text \<open>
  What \<open>json.load\<close> returns and \<open>json.dump\<close> writes: \<open>None\<close>, booleans, integers,
  strings, lists and dictionaries. A dictionary is an association list in insertion
  order, read with \<open>map_of\<close>. JSON numbers with a fraction or an exponent (Python
  floats) are outside the model.
\<close>

datatype json =
    JNull
  | JBool bool
  | JInt int
  | JStr pystr
  | JList "json list"
  | JObj "(pystr \<times> json) list"

text \<open>
  Iterating over a value in a \<open>for\<close> statement: a list gives its elements, a
  dictionary its keys, a string its characters; anything else is not iterable.
\<close>

definition py_iter :: "json \<Rightarrow> py_error + json list" where
  "py_iter v =
     (case v of
        JList xs \<Rightarrow> Inr xs
      | JObj kvs \<Rightarrow> Inr (map (\<lambda>kv. JStr (fst kv)) kvs)
      | JStr s \<Rightarrow> Inr (map (\<lambda>c. JStr [c]) s)
      | _ \<Rightarrow> Inl TypeError)"

subsection \<open>Durations\<close>

text \<open>
  A \<open>datetime.timedelta\<close> is a whole number of microseconds whose number of days lies
  between -999999999 and 999999999; the constructor raises \<open>OverflowError\<close> outside.
\<close>

datatype timedelta = Microseconds (us: int)

definition td_in_range :: "timedelta \<Rightarrow> bool" where
  "td_in_range d \<longleftrightarrow>
     - 999999999 \<le> us d div 86400000000 \<and> us d div 86400000000 \<le> 999999999"

text \<open>\<open>timedelta(hours=h, minutes=m, seconds=s)\<close> on integers; an absent keyword is 0.\<close>

definition timedelta_new :: "int \<Rightarrow> int \<Rightarrow> int \<Rightarrow> py_error + timedelta" where
  "timedelta_new h m s =
     (let d = Microseconds ((h * 3600 + m * 60 + s) * 1000000)
      in if td_in_range d then Inr d else Inl OverflowError)"

text \<open>
  \<open>int(d.total_seconds())\<close>: the seconds, rounded towards zero. \<open>total_seconds\<close> is a
  float; the value below is the exact one, which the float gives for every whole number
  of seconds and for every duration shorter than \<open>2 ^ 34\<close> seconds.
\<close>

definition total_seconds_int :: "timedelta \<Rightarrow> int" where
  "total_seconds_int d =
     (if 0 \<le> us d then us d div 1000000 else - ((- us d) div 1000000))"

text \<open>\<open>str(d)\<close> of a \<open>timedelta\<close>, as the standard library prints it.\<close>

definition timedelta_str :: "timedelta \<Rightarrow> pystr" where
  "timedelta_str d =
     (let days = us d div 86400000000;
          secs = (us d mod 86400000000) div 1000000;
          micro = us d mod 1000000;
          mm = secs div 60;
          s = format_d (mm div 60) @ str '':'' @ format_0d 2 (mm mod 60) @ str '':'' @
              format_0d 2 (secs mod 60);
          s1 = (if days \<noteq> 0
                then format_d days @ str '' day'' @
                     (if \<bar>days\<bar> \<noteq> 1 then str ''s'' else []) @ str '', '' @ s
                else s)
      in if micro \<noteq> 0 then s1 @ str ''.'' @ format_0d 6 micro else s1)"

section \<open>Genres\<close>

datatype MusicGenre =
  POP | ROCK | JAZZ | HIP_HOP | ELECTRONIC | CLASSICAL | COUNTRY | RNB | METAL | INDIE | OTHER

text \<open>
  The members' values: the display labels, Russian words given by their code points
  (only \<open>RNB\<close> is ASCII).
\<close>

fun value_of :: "MusicGenre \<Rightarrow> pystr" where
  "value_of POP = [1055, 1086, 1087]"
| "value_of ROCK = [1056, 1086, 1082]"
| "value_of JAZZ = [1044, 1078, 1072, 1079]"
| "value_of HIP_HOP = [1061, 1080, 1087, 45, 1093, 1086, 1087]"
| "value_of ELECTRONIC = [1069, 1083, 1077, 1082, 1090, 1088, 1086, 1085, 1085, 1072, 1103]"
| "value_of CLASSICAL =
     [1050, 1083, 1072, 1089, 1089, 1080, 1095, 1077, 1089, 1082, 1072, 1103]"
| "value_of COUNTRY = [1050, 1072, 1085, 1090, 1088, 1080]"
| "value_of RNB = str ''R&B''"
| "value_of METAL = [1052, 1077, 1090, 1072, 1083]"
| "value_of INDIE = [1048, 1085, 1076, 1080]"
| "value_of OTHER = [1044, 1088, 1091, 1075, 1086, 1077]"

text \<open>Iterating over the enumeration gives the members in the order of declaration.\<close>

definition all_genres :: "MusicGenre list" where
  "all_genres =
     [POP, ROCK, JAZZ, HIP_HOP, ELECTRONIC, CLASSICAL, COUNTRY, RNB, METAL, INDIE, OTHER]"

section \<open>Tracks\<close>

record Track =
  title :: pystr
  artist :: pystr
  duration :: timedelta
  genre :: MusicGenre
  year :: "int option"

text \<open>
  Creating a track runs \<open>__post_init__\<close>: four checks in this order, the first that
  fails raises. \<open>from_dict\<close> passes on what the file holds, so the title, the artist
  and the year arrive as JSON values: a title or artist that is no string has no
  \<open>strip\<close>, a boolean year compares as 0 or 1, and a year that is a string, a list or
  a dictionary cannot be compared with a number.
\<close>

definition Track_new ::
    "json \<Rightarrow> json \<Rightarrow> timedelta \<Rightarrow> MusicGenre \<Rightarrow> json \<Rightarrow> py_error + Track" where
  "Track_new ti ar d g y =
     (case ti of
        JStr t \<Rightarrow>
          if strip t = [] then Inl (ValueError EmptyTitle)
          else (case ar of
                  JStr a \<Rightarrow>
                    if strip a = [] then Inl (ValueError EmptyArtist)
                    else if us d \<le> 0 then Inl (ValueError NonPositiveDuration)
                    else (case y of
                            JNull \<Rightarrow>
                              Inr \<lparr>title = t, artist = a, duration = d, genre = g, year = None\<rparr>
                          | JInt n \<Rightarrow>
                              if n < 1900 \<or> n > 2100 then Inl (ValueError BadYear)
                              else Inr \<lparr>title = t, artist = a, duration = d, genre = g,
                                        year = Some n\<rparr>
                          | JBool b \<Rightarrow> Inl (ValueError BadYear)
                          | _ \<Rightarrow> Inl TypeError)
                | _ \<Rightarrow> Inl AttributeError)
      | _ \<Rightarrow> Inl AttributeError)"

text \<open>The constructor as the type annotations have it: strings and an optional integer.\<close>

definition Track_init ::
    "pystr \<Rightarrow> pystr \<Rightarrow> timedelta \<Rightarrow> MusicGenre \<Rightarrow> int option \<Rightarrow> py_error + Track" where
  "Track_init t a d g y =
     Track_new (JStr t) (JStr a) d g (case y of None \<Rightarrow> JNull | Some n \<Rightarrow> JInt n)"

definition duration_seconds :: "Track \<Rightarrow> int" where
  "duration_seconds t = total_seconds_int (duration t)"

definition duration_str :: "Track \<Rightarrow> pystr" where
  "duration_str t =
     (let total_seconds = total_seconds_int (duration t);
          minutes = total_seconds div 60;
          seconds = total_seconds mod 60
      in format_0d 2 minutes @ str '':'' @ format_0d 2 seconds)"

definition to_dict :: "Track \<Rightarrow> json" where
  "to_dict t =
     JObj [(str ''title'', JStr (title t)),
           (str ''artist'', JStr (artist t)),
           (str ''duration'', JStr (duration_str t)),
           (str ''genre'', JStr (value_of (genre t))),
           (str ''year'', (case year t of None \<Rightarrow> JNull | Some y \<Rightarrow> JInt y))]"

text \<open>
  \<open>data[key]\<close>: only a dictionary can be indexed by a string, and the key must be
  there.
\<close>

definition getitem :: "json \<Rightarrow> pystr \<Rightarrow> py_error + json" where
  "getitem data k =
     (case data of
        JObj kvs \<Rightarrow> (case map_of kvs k of None \<Rightarrow> Inl (KeyError k) | Some v \<Rightarrow> Inr v)
      | _ \<Rightarrow> Inl TypeError)"

text \<open>\<open>data.get(key, default)\<close> on a dictionary.\<close>

definition dict_get :: "(pystr \<times> json) list \<Rightarrow> pystr \<Rightarrow> json \<Rightarrow> json" where
  "dict_get kvs k dflt = (case map_of kvs k of None \<Rightarrow> dflt | Some v \<Rightarrow> v)"

text \<open>
  The first part of \<open>from_dict\<close>: the duration text is split at the colons; two parts
  are minutes and seconds, three are hours, minutes and seconds, and \<open>int\<close> reads the
  parts from left to right.
\<close>

definition parse_parts :: "pystr \<Rightarrow> py_error + timedelta" where
  "parse_parts text =
     (let duration_parts = split 58 text
      in if length duration_parts = 2 then
           (case py_int (duration_parts ! 0) of
              Inl e \<Rightarrow> Inl e
            | Inr minutes \<Rightarrow>
                (case py_int (duration_parts ! 1) of
                   Inl e \<Rightarrow> Inl e
                 | Inr seconds \<Rightarrow> timedelta_new 0 minutes seconds))
         else if length duration_parts = 3 then
           (case py_int (duration_parts ! 0) of
              Inl e \<Rightarrow> Inl e
            | Inr hours \<Rightarrow>
                (case py_int (duration_parts ! 1) of
                   Inl e \<Rightarrow> Inl e
                 | Inr minutes \<Rightarrow>
                     (case py_int (duration_parts ! 2) of
                        Inl e \<Rightarrow> Inl e
                      | Inr seconds \<Rightarrow> timedelta_new hours minutes seconds)))
         else Inl (ValueError (BadDurationFormat text)))"

text \<open>
  The second part: the loop over the enumeration that looks for the member whose value
  equals the stored one, and keeps \<open>OTHER\<close> when there is none.
\<close>

fun find_genre :: "json \<Rightarrow> MusicGenre list \<Rightarrow> MusicGenre" where
  "find_genre genre_value [] = OTHER"
| "find_genre genre_value (g # gs) =
     (if JStr (value_of g) = genre_value then g else find_genre genre_value gs)"

definition genre_from :: "(pystr \<times> json) list \<Rightarrow> MusicGenre" where
  "genre_from kvs =
     (let genre_value = dict_get kvs (str ''genre'') (JStr [1044, 1088, 1091, 1075, 1086, 1077])
      in find_genre genre_value all_genres)"

text \<open>
  The third part: the call of the constructor. The title is read before the artist,
  and the year with \<open>get\<close>, so that an absent year is \<open>None\<close>.
\<close>

definition make_track :: "json \<Rightarrow> timedelta \<Rightarrow> py_error + Track" where
  "make_track data d =
     (case data of
        JObj kvs \<Rightarrow>
          (let g = genre_from kvs
           in case getitem data (str ''title'') of
                Inl e \<Rightarrow> Inl e
              | Inr ti \<Rightarrow>
                  (case getitem data (str ''artist'') of
                     Inl e \<Rightarrow> Inl e
                   | Inr ar \<Rightarrow> Track_new ti ar d g (dict_get kvs (str ''year'') JNull)))
      | _ \<Rightarrow> Inl AttributeError)"

definition from_dict :: "json \<Rightarrow> py_error + Track" where
  "from_dict data =
     (case getitem data (str ''duration'') of
        Inl e \<Rightarrow> Inl e
      | Inr dv \<Rightarrow>
          (case dv of
             JStr text \<Rightarrow>
               (case parse_parts text of
                  Inl e \<Rightarrow> Inl e
                | Inr d \<Rightarrow> make_track data d)
           | _ \<Rightarrow> Inl AttributeError))"

text \<open>
  A track that the constructor accepts: creating a track from its own fields gives it
  back.
\<close>

definition valid_track :: "Track \<Rightarrow> bool" where
  "valid_track t \<longleftrightarrow>
     Track_init (title t) (artist t) (duration t) (genre t) (year t) = Inr t"

text \<open>A duration of whole seconds: a \<open>timedelta\<close> without a microsecond part.\<close>

definition whole_seconds :: "timedelta \<Rightarrow> bool" where
  "whole_seconds d \<longleftrightarrow> td_in_range d \<and> us d mod 1000000 = 0"

text \<open>The errors that \<open>__post_init__\<close> raises.\<close>

definition validation_errors :: "py_error list" where
  "validation_errors =
     [ValueError EmptyTitle, ValueError EmptyArtist, ValueError NonPositiveDuration,
      ValueError BadYear]"

section \<open>Playlists\<close>

text \<open>
  The name is whatever was last assigned to it: a string when the playlist is created,
  the value stored under \<open>playlist_name\<close> after a load.
\<close>

record Playlist =
  name :: json
  tracks :: "Track list"

text \<open>What the program prints, one constructor for each message.\<close>

datatype printed =
    Saved pystr                  \<comment> \<open>the playlist was saved to the file\<close>
  | SaveFailed pystr py_error    \<comment> \<open>error while saving to the file\<close>
  | TrackWarning py_error        \<comment> \<open>error while loading a track\<close>
  | Loaded pystr                 \<comment> \<open>the playlist was loaded from the file\<close>
  | LoadedCount nat              \<comment> \<open>the number of tracks loaded\<close>
  | FileNotFound pystr           \<comment> \<open>file not found\<close>
  | JSONFormatError pystr        \<comment> \<open>JSON format error in the file\<close>
  | LoadFailed pystr py_error    \<comment> \<open>error while loading from the file\<close>

definition add_track :: "Playlist \<Rightarrow> Track \<Rightarrow> Playlist" where
  "add_track p t = p\<lparr>tracks := tracks p @ [t]\<rparr>"

definition get_tracks_by_artist :: "Playlist \<Rightarrow> pystr \<Rightarrow> Track list" where
  "get_tracks_by_artist p a =
     (let artist_lower = lower (strip a)
      in filter (\<lambda>t. lower (artist t) = artist_lower) (tracks p))"

definition get_tracks_by_genre :: "Playlist \<Rightarrow> MusicGenre \<Rightarrow> Track list" where
  "get_tracks_by_genre p g = filter (\<lambda>t. genre t = g) (tracks p)"

definition get_total_duration :: "Playlist \<Rightarrow> py_error + timedelta" where
  "get_total_duration p =
     (let total_seconds = sum_list (map duration_seconds (tracks p))
      in timedelta_new 0 0 total_seconds)"

subsection \<open>Statistics\<close>

record statistics =
  total_tracks :: nat
  total_duration :: pystr
  artists :: nat
  genres :: "(pystr \<times> nat) list"
  years :: "(int \<times> nat) list"

text \<open>
  The two loops of \<open>get_statistics\<close>. Both fill a dictionary, an association list in
  insertion order: \<open>AList.update\<close> replaces the value of a key that is there and
  appends a new key at the end.
\<close>

fun genre_counts ::
    "Playlist \<Rightarrow> MusicGenre list \<Rightarrow> (pystr \<times> nat) list \<Rightarrow> (pystr \<times> nat) list" where
  "genre_counts p [] d = d"
| "genre_counts p (g # gs) d =
     (let count = length (get_tracks_by_genre p g)
      in genre_counts p gs (if count > 0 then AList.update (value_of g) count d else d))"

fun year_counts :: "Track list \<Rightarrow> (int \<times> nat) list \<Rightarrow> (int \<times> nat) list" where
  "year_counts [] d = d"
| "year_counts (t # ts) d =
     (case year t of
        None \<Rightarrow> year_counts ts d
      | Some y \<Rightarrow>
          if y \<noteq> 0
          then year_counts ts
                 (AList.update y ((case map_of d y of None \<Rightarrow> 0 | Some c \<Rightarrow> c) + 1) d)
          else year_counts ts d)"

definition get_statistics :: "Playlist \<Rightarrow> py_error + statistics" where
  "get_statistics p =
     (case get_total_duration p of
        Inl e \<Rightarrow> Inl e
      | Inr td \<Rightarrow>
          Inr \<lparr>total_tracks = length (tracks p),
               total_duration = timedelta_str td,
               artists = length (remdups (map (\<lambda>t. lower (artist t)) (tracks p))),
               genres = genre_counts p all_genres [],
               years = year_counts (tracks p) []\<rparr>)"

subsection \<open>Saving and loading\<close>

text \<open>
  The file system is outside the program. \<open>save_to_json\<close> is given what opening and
  writing the file does, \<open>None\<close> when nothing is raised, and returns the document that
  then stands in the file. \<open>load_from_json\<close> is given what opening the file and
  \<open>json.load\<close> do: an exception, or the document read.
\<close>

definition playlist_data :: "Playlist \<Rightarrow> json" where
  "playlist_data p =
     JObj [(str ''playlist_name'', name p),
           (str ''tracks'', JList (map to_dict (tracks p)))]"

definition save_to_json ::
    "Playlist \<Rightarrow> pystr \<Rightarrow> py_error option \<Rightarrow> bool \<times> json option \<times> printed list" where
  "save_to_json p filename written =
     (let data = playlist_data p
      in case written of
           None \<Rightarrow> (True, Some data, [Saved filename])
         | Some e \<Rightarrow> (False, None, [SaveFailed filename e]))"

text \<open>
  The inner loop of \<open>load_from_json\<close>: every record goes through \<open>from_dict\<close>; an
  exception there is printed and the loop goes on.
\<close>

fun load_tracks :: "json list \<Rightarrow> Playlist \<Rightarrow> printed list \<Rightarrow> Playlist \<times> printed list" where
  "load_tracks [] p out = (p, out)"
| "load_tracks (track_data # rest) p out =
     (case from_dict track_data of
        Inr track \<Rightarrow> load_tracks rest (add_track p track) out
      | Inl e \<Rightarrow> load_tracks rest p (out @ [TrackWarning e]))"

text \<open>
  The name is assigned and the tracks are cleared before the loop starts, inside the
  outer \<open>try\<close>: what is raised after that point finds the playlist already changed.
\<close>

definition load_from_json ::
    "Playlist \<Rightarrow> pystr \<Rightarrow> py_error + json \<Rightarrow> bool \<times> Playlist \<times> printed list" where
  "load_from_json p filename content =
     (case content of
        Inl FileNotFoundError \<Rightarrow> (False, p, [FileNotFound filename])
      | Inl JSONDecodeError \<Rightarrow> (False, p, [JSONFormatError filename])
      | Inl e \<Rightarrow> (False, p, [LoadFailed filename e])
      | Inr data \<Rightarrow>
          (case data of
             JObj kvs \<Rightarrow>
               (let p1 = p\<lparr>name := dict_get kvs (str ''playlist_name'') (name p)\<rparr>;
                    p2 = p1\<lparr>tracks := []\<rparr>
                in case py_iter (dict_get kvs (str ''tracks'') (JList [])) of
                     Inl e \<Rightarrow> (False, p2, [LoadFailed filename e])
                   | Inr items \<Rightarrow>
                       (let (p3, out) = load_tracks items p2 []
                        in (True, p3, out @ [Loaded filename, LoadedCount (length (tracks p3))])))
           | _ \<Rightarrow> (False, p, [LoadFailed filename AttributeError])))"



section \<open>Example data\<close>

text \<open>
  Two of the tracks of \<open>handle_demo\<close>, a third without a year, one whose artist was
  typed with a leading blank, one that lasts half a second, and one of the longest
  duration a \<open>timedelta\<close> can hold in whole days.
\<close>

definition bohemian :: Track where
  "bohemian =
     \<lparr>title = str ''Bohemian Rhapsody'', artist = str ''Queen'',
      duration = Microseconds 355000000, genre = ROCK, year = Some 1975\<rparr>"

definition imagine :: Track where
  "imagine =
     \<lparr>title = str ''Imagine'', artist = str ''John Lennon'',
      duration = Microseconds 183000000, genre = POP, year = Some 1971\<rparr>"

definition take_five :: Track where
  "take_five =
     \<lparr>title = str ''Take Five'', artist = str ''Dave Brubeck'',
      duration = Microseconds 324000000, genre = JAZZ, year = None\<rparr>"

definition padded_queen :: Track where
  "padded_queen =
     \<lparr>title = str ''Bohemian Rhapsody'', artist = str '' Queen'',
      duration = Microseconds 355000000, genre = ROCK, year = Some 1975\<rparr>"

definition half_second :: Track where
  "half_second =
     \<lparr>title = str ''Blip'', artist = str ''Nobody'',
      duration = Microseconds 500000, genre = OTHER, year = None\<rparr>"

definition longest :: Track where
  "longest =
     \<lparr>title = str ''Longplayer'', artist = str ''Jem Finer'',
      duration = Microseconds 86399999913600000000, genre = ELECTRONIC, year = None\<rparr>"

text \<open>A track of a band with a Russian name: Kino, and their song Gruppa krovi.\<close>

definition kino :: Track where
  "kino =
     \<lparr>title = [1043, 1088, 1091, 1087, 1087, 1072, 32, 1082, 1088, 1086, 1074, 1080],
      artist = [1050, 1080, 1085, 1086],
      duration = Microseconds 285000000, genre = ROCK, year = Some 1988\<rparr>"

definition demo :: Playlist where
  "demo = \<lparr>name = JStr (str ''demo''), tracks = [bohemian, take_five, imagine]\<rparr>"

text \<open>The value of a string of digits, read from the left.\<close>

definition digits_value :: "nat \<Rightarrow> pystr \<Rightarrow> nat" where
  "digits_value = foldl (\<lambda>a c. 10 * a + (c - 48))"

section \<open>Printing and reading numbers\<close>

lemma dec_nonempty: "dec n \<noteq> []"
  by (subst dec.simps) simp

lemma dec_digits: "c \<in> set (dec n) \<Longrightarrow> isdigit c"
proof (induction n arbitrary: c rule: dec.induct)
  case (1 n)
  show ?case
  proof (cases "n < 10")
    case True
    with "1.prems" show ?thesis by (subst (asm) dec.simps) (simp add: isdigit_def)
  next
    case False
    with "1.prems" have "c \<in> set (dec (n div 10)) \<or> c = 48 + n mod 10"
      by (subst (asm) dec.simps) auto
    then show ?thesis
    proof
      assume "c \<in> set (dec (n div 10))"
      with "1.IH" False show ?thesis by simp
    next
      assume "c = 48 + n mod 10"
      then show ?thesis by (simp add: isdigit_def)
    qed
  qed
qed

lemma int_digits_value:
  "\<forall>c\<in>set ds. isdigit c \<Longrightarrow> int_digits acc ds = Some (digits_value acc ds)"
  by (induction ds arbitrary: acc) (simp_all add: digits_value_def)

lemma int_unsigned_value:
  "s \<noteq> [] \<Longrightarrow> \<forall>c\<in>set s. isdigit c \<Longrightarrow> int_unsigned s = Some (digits_value 0 s)"
  by (cases s) (simp_all add: int_unsigned_def int_digits_value, simp add: digits_value_def)

lemma digits_value_dec: "digits_value 0 (dec n) = n"
proof (induction n rule: dec.induct)
  case (1 n)
  show ?case
  proof (cases "n < 10")
    case True
    then show ?thesis by (subst dec.simps) (simp add: digits_value_def)
  next
    case False
    with "1.IH" have "digits_value 0 (dec (n div 10)) = n div 10" by simp
    with False show ?thesis
      by (subst dec.simps) (simp add: digits_value_def)
  qed
qed

lemma digits_value_zeros: "digits_value 0 (replicate k 48 @ ds) = digits_value 0 ds"
  by (induction k) (simp_all add: digits_value_def)

lemma isdigit_not_space: "isdigit c \<Longrightarrow> \<not> int_space c"
  by (auto simp: isdigit_def int_space_def isspace_def)

lemma dropWhile_digits: "\<forall>c\<in>set s. isdigit c \<Longrightarrow> dropWhile int_space s = s"
  by (cases s) (simp_all add: isdigit_not_space)

lemma py_int_digits:
  assumes "s \<noteq> []" and "\<forall>c\<in>set s. isdigit c"
  shows "py_int s = Inr (int (digits_value 0 s))"
proof -
  from assms(2) have r: "\<forall>c\<in>set (rev s). isdigit c" by simp
  have t: "rev (dropWhile int_space (rev (dropWhile int_space s))) = s"
    using assms(2) r by (simp add: dropWhile_digits)
  from assms obtain c cs where s: "s = c # cs" by (cases s) auto
  with assms(2) have "isdigit c" by simp
  then have "c \<noteq> 45" "c \<noteq> 43" by (auto simp: isdigit_def)
  with s t int_unsigned_value [OF assms] show ?thesis
    by (simp add: py_int_def)
qed

lemma py_int_format:
  assumes "0 \<le> n"
  shows "py_int (format_0d w n) = Inr n"
proof -
  let ?s = "replicate (w - length (dec (nat n))) 48 @ dec (nat n)"
  have ne: "?s \<noteq> []" by (simp add: dec_nonempty)
  have "isdigit 48" by (simp add: isdigit_def)
  then have dg: "\<forall>c\<in>set ?s. isdigit c" by (auto simp: dec_digits)
  from assms have "format_0d w n = ?s" by (simp add: format_0d_def)
  with py_int_digits [OF ne dg] assms show ?thesis
    by (simp add: digits_value_zeros digits_value_dec)
qed

lemma split_no_sep: "sep \<notin> set s \<Longrightarrow> split sep s = [s]"
  by (induction s) auto

lemma split_at_sep: "sep \<notin> set a \<Longrightarrow> split sep (a @ sep # b) = a # split sep b"
  by (induction a) auto

lemma format_0d_no_colon: "0 \<le> n \<Longrightarrow> 58 \<notin> set (format_0d w n)"
proof -
  have "\<not> isdigit 58" by (simp add: isdigit_def)
  then have "58 \<notin> set (dec (nat n))" using dec_digits by blast
  moreover assume "0 \<le> n"
  ultimately show ?thesis by (simp add: format_0d_def)
qed

lemma valid_trackD:
  assumes "valid_track t"
  shows "strip (title t) \<noteq> []" and "strip (artist t) \<noteq> []" and "0 < us (duration t)"
    and "\<forall>y. year t = Some y \<longrightarrow> 1900 \<le> y \<and> y \<le> 2100"
  using assms
  by (auto simp: valid_track_def Track_init_def Track_new_def split: if_splits option.splits)

lemma Track_new_valid:
  assumes "valid_track t"
  shows "Track_new (JStr (title t)) (JStr (artist t)) (duration t) (genre t)
           (case year t of None \<Rightarrow> JNull | Some y \<Rightarrow> JInt y) = Inr t"
  using assms by (simp add: valid_track_def Track_init_def)

lemma parse_parts_duration_str:
  assumes pos: "0 < us (duration t)" and whole: "whole_seconds (duration t)"
  shows "parse_parts (duration_str t) = Inr (duration t)"
proof -
  define T where "T = us (duration t) div 1000000"
  define m where "m = T div 60"
  define s where "s = T mod 60"
  from pos have T0: "0 \<le> T" by (simp add: T_def)
  then have m0: "0 \<le> m" and s0: "0 \<le> s" by (simp_all add: m_def s_def)
  from whole have "us (duration t) mod 1000000 = 0"
    by (simp add: whole_seconds_def)
  then have usT: "us (duration t) = T * 1000000"
    using div_mult_mod_eq [of "us (duration t)" 1000000] by (simp add: T_def)
  from pos have "total_seconds_int (duration t) = T"
    by (simp add: total_seconds_int_def T_def)
  then have ds: "duration_str t = format_0d 2 m @ 58 # format_0d 2 s"
    by (simp add: duration_str_def m_def s_def str_def)
  have sp: "split 58 (duration_str t) = [format_0d 2 m, format_0d 2 s]"
    unfolding ds using m0 s0
    by (simp add: split_at_sep split_no_sep format_0d_no_colon)
  have "(m * 60 + s) * 1000000 = us (duration t)"
    by (simp add: usT m_def s_def)
  then have td: "timedelta_new 0 m s = Inr (duration t)"
    using whole by (simp add: timedelta_new_def whole_seconds_def)
  show ?thesis
    unfolding parse_parts_def sp using m0 s0 td
    by (simp add: py_int_format)
qed

lemma find_genre_value_of: "find_genre (JStr (value_of g)) all_genres = g"
  by (cases g) (simp_all add: all_genres_def str_def)

lemma to_dict_items:
  "getitem (to_dict t) (str ''duration'') = Inr (JStr (duration_str t))"
  "getitem (to_dict t) (str ''title'') = Inr (JStr (title t))"
  "getitem (to_dict t) (str ''artist'') = Inr (JStr (artist t))"
  by (simp_all add: getitem_def to_dict_def str_def)

lemma from_dict_to_dict:
  assumes "valid_track t" and "whole_seconds (duration t)"
  shows "from_dict (to_dict t) = Inr t"
proof -
  have pp: "parse_parts (duration_str t) = Inr (duration t)"
    using assms by (simp add: parse_parts_duration_str valid_trackD)
  obtain kvs where kvs: "to_dict t = JObj kvs"
    and g: "dict_get kvs (str ''genre'') (JStr [1044, 1088, 1091, 1075, 1086, 1077])
              = JStr (value_of (genre t))"
    and y: "dict_get kvs (str ''year'') JNull = (case year t of None \<Rightarrow> JNull | Some y \<Rightarrow> JInt y)"
    by (simp add: to_dict_def dict_get_def str_def)
  have mk: "make_track (to_dict t) (duration t) = Inr t"
    unfolding make_track_def kvs json.case
    unfolding kvs [symmetric] to_dict_items
    using g y Track_new_valid [OF assms(1)]
    by (simp add: genre_from_def find_genre_value_of)
  show ?thesis
    unfolding from_dict_def to_dict_items using pp mk by simp
qed

lemma load_tracks_to_dict:
  assumes "\<forall>x\<in>set ts. from_dict (to_dict x) = Inr x"
  shows "load_tracks (map to_dict ts) p out = (p\<lparr>tracks := tracks p @ ts\<rparr>, out)"
  using assms by (induction ts arbitrary: p) (simp_all add: add_track_def)

lemma load_playlist_data:
  assumes "\<forall>x\<in>set (tracks p). from_dict (to_dict x) = Inr x"
  shows "load_from_json q fn (Inr (playlist_data p)) =
           (True, \<lparr>name = name p, tracks = tracks p\<rparr>, [Loaded fn, LoadedCount (length (tracks p))])"
proof -
  have n: "dict_get [(str ''playlist_name'', name p), (str ''tracks'', JList (map to_dict (tracks p)))]
             (str ''playlist_name'') (name q) = name p"
    by (simp add: dict_get_def)
  have tr: "dict_get [(str ''playlist_name'', name p), (str ''tracks'', JList (map to_dict (tracks p)))]
             (str ''tracks'') (JList []) = JList (map to_dict (tracks p))"
    by (simp add: dict_get_def str_def)
  show ?thesis
    unfolding load_from_json_def playlist_data_def
    by (simp only: sum.case json.case n tr Let_def py_iter_def load_tracks_to_dict [OF assms])
       simp
qed

section \<open>The example tracks\<close>

lemma demo_tracks_valid:
  "valid_track bohemian" "valid_track take_five" "valid_track imagine"
  by (simp_all add: valid_track_def Track_init_def Track_new_def bohemian_def take_five_def
        imagine_def strip_def isspace_def str_def)

lemma demo_tracks_whole:
  "whole_seconds (duration bohemian)" "whole_seconds (duration take_five)"
  "whole_seconds (duration imagine)"
  by (simp_all add: whole_seconds_def td_in_range_def bohemian_def take_five_def imagine_def)

section \<open>The record form of a track\<close>

text \<open>
  C1. For every track that the constructor accepts and whose duration is a whole number
  of seconds, \<open>from_dict\<close> applied to \<open>to_dict\<close> of the track succeeds and gives the
  track back: the same title, artist, duration, genre and year, an absent year too.
  So \<open>to_dict\<close> after \<open>from_dict\<close> after \<open>to_dict\<close> is \<open>to_dict\<close>. A playlist of such
  tracks that \<open>save_to_json\<close> writes and \<open>load_from_json\<close> reads back into any other
  playlist arrives with the same name and the same tracks in the same order.
  What is read back is the document that was written. (\<open>whole_seconds\<close> also says
  that the duration is a value of \<open>timedelta\<close>, which every duration of a Python
  track is.)
\<close>

theorem record_roundtrip:
  assumes "valid_track t" and "whole_seconds (duration t)"
    and "\<forall>x\<in>set (tracks p). valid_track x \<and> whole_seconds (duration x)"
  shows "from_dict (to_dict t) = Inr t \<and>
         map_sum id to_dict (from_dict (to_dict t)) = Inr (to_dict t) \<and>
         save_to_json p fn None = (True, Some (playlist_data p), [Saved fn]) \<and>
         load_from_json q fn (Inr (playlist_data p)) =
           (True, p, [Loaded fn, LoadedCount (length (tracks p))])"
proof -
  have a: "from_dict (to_dict t) = Inr t"
    using assms(1,2) by (rule from_dict_to_dict)
  have "\<forall>x\<in>set (tracks p). from_dict (to_dict x) = Inr x"
    using assms(3) by (simp add: from_dict_to_dict)
  then have b: "load_from_json q fn (Inr (playlist_data p)) =
           (True, p, [Loaded fn, LoadedCount (length (tracks p))])"
    by (simp add: load_playlist_data)
  from a b show ?thesis by (simp add: save_to_json_def)
qed

text \<open>
  The scenario of the specification: three tracks, one of them without a year, saved and
  loaded into a fresh playlist.
\<close>

theorem record_roundtrip_witness:
  "valid_track take_five \<and> whole_seconds (duration take_five) \<and>
   tracks demo = [bohemian, take_five, imagine] \<and>
   valid_track bohemian \<and> whole_seconds (duration bohemian) \<and>
   valid_track imagine \<and> whole_seconds (duration imagine) \<and>
   from_dict (to_dict take_five) = Inr take_five \<and>
   year take_five = None \<and> length (tracks demo) = 3 \<and>
   load_from_json \<lparr>name = JStr (str ''fresh''), tracks = []\<rparr> (str ''demo.json'')
     (Inr (playlist_data demo)) =
     (True, demo, [Loaded (str ''demo.json''), LoadedCount 3])"
proof -
  have h1: "valid_track take_five" by (rule demo_tracks_valid)
  have h2: "whole_seconds (duration take_five)" by (rule demo_tracks_whole)
  have h3: "\<forall>x\<in>set (tracks demo). valid_track x \<and> whole_seconds (duration x)"
    by (simp add: demo_def demo_tracks_valid demo_tracks_whole)
  have n: "length (tracks demo) = 3" "year take_five = None"
    "tracks demo = [bohemian, take_five, imagine]"
    by (simp_all add: demo_def take_five_def)
  show ?thesis
    using record_roundtrip [OF h1 h2 h3,
        of "str ''demo.json''" "\<lparr>name = JStr (str ''fresh''), tracks = []\<rparr>"] h1 h2 n
      demo_tracks_valid demo_tracks_whole
    by simp
qed

section \<open>Creating a track\<close>

lemma Track_init_eq:
  "Track_init t a d g y =
     (if strip t = [] then Inl (ValueError EmptyTitle)
      else if strip a = [] then Inl (ValueError EmptyArtist)
      else if us d \<le> 0 then Inl (ValueError NonPositiveDuration)
      else if (case y of None \<Rightarrow> False | Some n \<Rightarrow> n < 1900 \<or> n > 2100)
        then Inl (ValueError BadYear)
      else Inr \<lparr>title = t, artist = a, duration = d, genre = g, year = y\<rparr>)"
  by (simp add: Track_init_def Track_new_def split: option.split)

lemma strip_blank: "strip (str '''') = []" "strip (str ''   '') = []"
  by (simp_all add: strip_def str_def isspace_def)

lemma strip_names: "strip (str ''Imagine'') \<noteq> []" "strip (str ''John Lennon'') \<noteq> []"
  by (simp_all add: strip_def str_def isspace_def)

text \<open>
  C2, as the specification has it, asks for a duration that is positive in whole
  seconds. The constructor compares \<open>total_seconds()\<close> with 0, so a track of half a
  second is created although its duration in whole seconds is 0.
\<close>

theorem construct_half_second_counterexample:
  "Track_init (str ''Blip'') (str ''Nobody'') (Microseconds 500000) OTHER None = Inr half_second \<and>
   \<not> 0 < duration_seconds half_second"
  by (simp add: Track_init_def Track_new_def half_second_def strip_def str_def isspace_def
        duration_seconds_def total_seconds_int_def)

text \<open>
  C2, amended. Creating a track succeeds exactly when the title is not empty after
  trimming, the artist is not empty after trimming, the duration is positive (one
  microsecond is enough) and the year is absent or lies in 1900 to 2100. Otherwise it
  raises a \<open>ValueError\<close> whose message names the first check that failed, in the order
  title, artist, duration, year. It fails for the empty title, the title of three
  blanks, the durations zero and negative, and the years 1899 and 2101.
\<close>

theorem Track_init_checks:
  "Track_init t a d g y =
     (if strip t = [] then Inl (ValueError EmptyTitle)
      else if strip a = [] then Inl (ValueError EmptyArtist)
      else if us d \<le> 0 then Inl (ValueError NonPositiveDuration)
      else if (case y of None \<Rightarrow> False | Some n \<Rightarrow> n < 1900 \<or> n > 2100)
        then Inl (ValueError BadYear)
      else Inr \<lparr>title = t, artist = a, duration = d, genre = g, year = y\<rparr>) \<and>
   (\<not> isl (Track_init t a d g y) \<longleftrightarrow>
      strip t \<noteq> [] \<and> strip a \<noteq> [] \<and> 0 < us d \<and>
      (case y of None \<Rightarrow> True | Some n \<Rightarrow> 1900 \<le> n \<and> n \<le> 2100)) \<and>
   Track_init (str '''') a d g y = Inl (ValueError EmptyTitle) \<and>
   Track_init (str ''   '') a d g y = Inl (ValueError EmptyTitle) \<and>
   Track_init (str ''Imagine'') (str ''John Lennon'') (Microseconds 0) g y =
     Inl (ValueError NonPositiveDuration) \<and>
   Track_init (str ''Imagine'') (str ''John Lennon'') (Microseconds (- 183000000)) g y =
     Inl (ValueError NonPositiveDuration) \<and>
   Track_init (str ''Imagine'') (str ''John Lennon'') (Microseconds 183000000) g (Some 1899) =
     Inl (ValueError BadYear) \<and>
   Track_init (str ''Imagine'') (str ''John Lennon'') (Microseconds 183000000) g (Some 2101) =
     Inl (ValueError BadYear)"
proof -
  have "\<not> isl (Track_init t a d g y) \<longleftrightarrow>
      strip t \<noteq> [] \<and> strip a \<noteq> [] \<and> 0 < us d \<and>
      (case y of None \<Rightarrow> True | Some n \<Rightarrow> 1900 \<le> n \<and> n \<le> 2100)"
    unfolding Track_init_eq by (auto split: option.splits)
  then show ?thesis
    by (simp add: Track_init_eq strip_blank strip_names)
qed

theorem Track_init_checks_witness:
  "Track_init (str ''Imagine'') (str ''John Lennon'') (Microseconds 183000000) POP (Some 1971) =
     Inr imagine \<and>
   Track_init (str ''Imagine'') (str ''John Lennon'') (Microseconds 183000000) POP (Some 2101) =
     Inl (ValueError BadYear)"
  using Track_init_checks [of "str ''Imagine''" "str ''John Lennon''" "Microseconds 183000000" POP
      "Some 1971"]
  by (simp add: strip_names imagine_def)

section \<open>The printed duration\<close>

lemma dec_small: "n < 10 \<Longrightarrow> dec n = [48 + n]"
  by (subst dec.simps) simp

lemma dec_two: "n < 100 \<Longrightarrow> replicate (2 - length (dec n)) 48 @ dec n = [48 + n div 10, 48 + n mod 10]"
  by (subst (1 2) dec.simps) (simp add: dec_small)

lemma dec_long: "10 \<le> n \<Longrightarrow> 2 \<le> length (dec n)"
  using dec_nonempty [of "n div 10"]
  by (subst dec.simps) (cases "dec (n div 10)", simp_all)

lemma format_0d_2:
  "0 \<le> n \<Longrightarrow> format_0d 2 n = (if n < 10 then [48, 48 + nat n] else dec (nat n))"
  using dec_long [of "nat n"] by (auto simp: format_0d_def dec_small)

lemma split_duration_str:
  assumes "0 < us (duration t)"
  shows "split 58 (duration_str t) =
           [format_0d 2 (duration_seconds t div 60), format_0d 2 (duration_seconds t mod 60)]"
proof -
  from assms have "0 \<le> duration_seconds t"
    by (simp add: duration_seconds_def total_seconds_int_def)
  then have "0 \<le> duration_seconds t div 60" and "0 \<le> duration_seconds t mod 60"
    by simp_all
  then show ?thesis
    by (simp add: duration_str_def duration_seconds_def str_def Let_def split_at_sep split_no_sep
          format_0d_no_colon)
qed

text \<open>
  C7. For every track the constructor accepts, \<open>duration_str\<close> is the minutes, a colon
  and the seconds: the minutes are the whole seconds divided by 60, in decimal, with a
  leading zero when below ten and never reduced modulo 60; the seconds are the remainder
  in exactly two digits. Read back as numbers, the two parts are the quotient and the
  remainder. 125 seconds print as 02:05 and 3661 seconds as 61:01.
\<close>

theorem duration_str_format:
  assumes "valid_track t"
  shows "duration_str t =
           (let m = nat (duration_seconds t div 60); s = nat (duration_seconds t mod 60)
            in (if m < 10 then [48, 48 + m] else dec m) @ [58, 48 + s div 10, 48 + s mod 10]) \<and>
         map py_int (split 58 (duration_str t)) =
           [Inr (duration_seconds t div 60), Inr (duration_seconds t mod 60)] \<and>
         duration_str (t\<lparr>duration := Microseconds 125000000\<rparr>) = str ''02:05'' \<and>
         duration_str (t\<lparr>duration := Microseconds 3661000000\<rparr>) = str ''61:01''"
proof -
  from assms have pos: "0 < us (duration t)" by (rule valid_trackD)
  then have T: "0 \<le> duration_seconds t"
    by (simp add: duration_seconds_def total_seconds_int_def)
  then have m: "0 \<le> duration_seconds t div 60" and s: "0 \<le> duration_seconds t mod 60"
    by simp_all
  have s60: "nat (duration_seconds t mod 60) < 100" by simp
  have sec: "format_0d 2 (duration_seconds t mod 60) =
      [48 + nat (duration_seconds t mod 60) div 10, 48 + nat (duration_seconds t mod 60) mod 10]"
    using s dec_two [OF s60] by (simp add: format_0d_def)
  have fm: "format_0d 2 (duration_seconds t div 60) =
      (if nat (duration_seconds t div 60) < 10 then [48, 48 + nat (duration_seconds t div 60)]
       else dec (nat (duration_seconds t div 60)))"
    using format_0d_2 [OF m] m by auto
  have "duration_str t =
      format_0d 2 (duration_seconds t div 60) @ 58 # format_0d 2 (duration_seconds t mod 60)"
    by (simp add: duration_str_def duration_seconds_def str_def Let_def)
  then have a: "duration_str t =
           (let m = nat (duration_seconds t div 60); s = nat (duration_seconds t mod 60)
            in (if m < 10 then [48, 48 + m] else dec m) @ [58, 48 + s div 10, 48 + s mod 10])"
    unfolding sec fm by (simp add: Let_def)
  have p: "map py_int (split 58 (duration_str t)) =
           [Inr (duration_seconds t div 60), Inr (duration_seconds t mod 60)]"
    using m s by (simp add: split_duration_str [OF pos] py_int_format)
  have b: "duration_str (t\<lparr>duration := Microseconds 125000000\<rparr>) = str ''02:05''"
    by (simp add: duration_str_def total_seconds_int_def format_0d_def str_def dec_small)
  have "dec 61 = [54, 49]" by (subst dec.simps) (simp add: dec_small)
  then have c: "duration_str (t\<lparr>duration := Microseconds 3661000000\<rparr>) = str ''61:01''"
    by (simp add: duration_str_def total_seconds_int_def format_0d_def str_def dec_small)
  from a p b c show ?thesis by simp
qed

theorem duration_str_format_witness:
  "valid_track bohemian \<and> duration_str bohemian = str ''05:55'' \<and>
   duration_str (bohemian\<lparr>duration := Microseconds 3661000000\<rparr>) = str ''61:01''"
  using duration_str_format [OF demo_tracks_valid(1)] demo_tracks_valid(1)
  by (simp add: bohemian_def duration_seconds_def total_seconds_int_def str_def)

section \<open>Loading a playlist\<close>

text \<open>
  C10. Loading a JSON object without the key \<open>tracks\<close> succeeds and leaves the
  playlist without tracks: the tracks it had are cleared, nothing replaces them, and
  the name is the value of \<open>playlist_name\<close> when that key is there.
\<close>

theorem load_without_tracks:
  assumes "map_of kvs (str ''tracks'') = None"
  shows "load_from_json p fn (Inr (JObj kvs)) =
           (True, \<lparr>name = dict_get kvs (str ''playlist_name'') (name p), tracks = []\<rparr>,
            [Loaded fn, LoadedCount 0])"
  using assms by (simp add: load_from_json_def dict_get_def py_iter_def)

theorem load_without_tracks_witness:
  "map_of [(str ''playlist_name'', JStr (str ''empty''))] (str ''tracks'') = None \<and>
   load_from_json demo (str ''empty.json'') (Inr (JObj [(str ''playlist_name'', JStr (str ''empty''))])) =
     (True, \<lparr>name = JStr (str ''empty''), tracks = []\<rparr>,
      [Loaded (str ''empty.json''), LoadedCount 0])"
proof -
  have h: "map_of [(str ''playlist_name'', JStr (str ''empty''))] (str ''tracks'') = None"
    by (simp add: str_def)
  show ?thesis
    using load_without_tracks [OF h, of demo "str ''empty.json''"] h
    by (simp add: dict_get_def)
qed

text \<open>
  C3, as the specification has it, says that every failing load leaves the playlist as
  it was. A document that was read and parsed but whose \<open>tracks\<close> entry cannot be
  iterated over fails after the name was assigned and the tracks were cleared.
\<close>

theorem load_failure_counterexample:
  "load_from_json demo (str ''bad.json'')
     (Inr (JObj [(str ''playlist_name'', JStr (str ''other'')), (str ''tracks'', JInt 5)])) =
     (False, \<lparr>name = JStr (str ''other''), tracks = []\<rparr>, [LoadFailed (str ''bad.json'') TypeError]) \<and>
   \<lparr>name = JStr (str ''other''), tracks = []\<rparr> \<noteq> demo"
  by (simp add: load_from_json_def dict_get_def py_iter_def demo_def str_def)

text \<open>
  C3, amended. When the file cannot be opened, read or parsed (file not found, a JSON
  decoding error, any other exception raised there), and when the parsed document is not
  a JSON object, \<open>load_from_json\<close> reports failure and leaves the name and the tracks
  as they were; so the playlist changes only after the file has been read and parsed.
  The three kinds of failure print three different messages.
\<close>

theorem load_failure_keeps_state:
  "load_from_json p fn (Inl FileNotFoundError) = (False, p, [FileNotFound fn]) \<and>
   load_from_json p fn (Inl JSONDecodeError) = (False, p, [JSONFormatError fn]) \<and>
   fst (load_from_json p fn (Inl e)) = False \<and>
   fst (snd (load_from_json p fn (Inl e))) = p \<and>
   load_from_json p fn (Inr JNull) = (False, p, [LoadFailed fn AttributeError]) \<and>
   load_from_json p fn (Inr (JBool b)) = (False, p, [LoadFailed fn AttributeError]) \<and>
   load_from_json p fn (Inr (JInt n)) = (False, p, [LoadFailed fn AttributeError]) \<and>
   load_from_json p fn (Inr (JStr s)) = (False, p, [LoadFailed fn AttributeError]) \<and>
   load_from_json p fn (Inr (JList xs)) = (False, p, [LoadFailed fn AttributeError])"
  by (cases e) (simp_all add: load_from_json_def)

theorem load_failure_keeps_state_witness:
  "load_from_json demo (str ''none.json'') (Inl FileNotFoundError) =
     (False, demo, [FileNotFound (str ''none.json'')]) \<and>
   load_from_json demo (str ''none.json'') (Inl OSError) =
     (False, demo, [LoadFailed (str ''none.json'') OSError])"
  using load_failure_keeps_state [of demo "str ''none.json''" OSError]
  by (simp add: load_from_json_def)

subsection \<open>Records that cannot be read\<close>









section \<open>Searching by artist\<close>

text \<open>
  Lower case on the examples: English names, the Russian name Kino, letters of other
  scripts (a German umlaut, the Kelvin sign, the Turkish dotted capital I, the capital
  sharp s, a Deseret letter), and two Greek words in capitals, one ending in a sigma and
  one beginning with it.
\<close>

lemma lower_latin:
  "lower (str ''Queen'') = str ''queen''"
  "lower (str '' Queen'') = str '' queen''"
  "lower (str ''queen'') = str ''queen''"
  "lower (str ''John Lennon'') = str ''john lennon''"
  "lower (str ''Dave Brubeck'') = str ''dave brubeck''"
  by (simp_all add: lower_def tolower_def lower_char_def str_def)

lemma lower_kino:
  "lower [1050, 1080, 1085, 1086] = [1082, 1080, 1085, 1086]"
  "lower [1082, 1080, 1085, 1086] = [1082, 1080, 1085, 1086]"
  by (simp_all add: lower_def tolower_def lower_table_def)

lemma lower_other_scripts: "lower [196, 8490, 304, 7838, 66560] = [228, 107, 105, 775, 223, 66600]"
  by (simp add: lower_def tolower_def lower_table_def)

lemma lower_sigma:
  "lower [927, 916, 927, 931] = [959, 948, 959, 962]"
  "lower [931, 927, 934, 921, 913] = [963, 959, 966, 953, 945]"
  by (simp_all add: lower_def tolower_def lower_table_def final_sigma_def cased_def
        case_ignorable_def cased_table_def case_ignorable_table_def)

lemma strip_queries:
  "strip (str ''  queen  '') = str ''queen''"
  "strip (str '' Queen'') = str ''Queen''"
  "strip (str ''Queen'') = str ''Queen''"
  "strip (str ''queen'') = str ''queen''"
  "strip [1082, 1080, 1085, 1086] = [1082, 1080, 1085, 1086]"
  by (simp_all add: strip_def isspace_def str_def)

text \<open>
  C5, as the specification has it, compares the artist of each track with the query
  without regard to case and to surrounding whitespace. Only the query is trimmed: a
  track whose stored artist begins with a blank is found neither by its own artist text
  nor by the trimmed one.
\<close>

theorem find_padded_artist_counterexample:
  "valid_track padded_queen \<and>
   get_tracks_by_artist \<lparr>name = JStr (str ''demo''), tracks = [padded_queen]\<rparr>
     (artist padded_queen) = [] \<and>
   get_tracks_by_artist \<lparr>name = JStr (str ''demo''), tracks = [padded_queen]\<rparr>
     (str ''Queen'') = []"
proof -
  have v: "valid_track padded_queen"
    by (simp add: valid_track_def Track_init_def Track_new_def padded_queen_def strip_def
          isspace_def str_def)
  have "str '' queen'' \<noteq> str ''queen''" by (simp add: str_def)
  then have "get_tracks_by_artist \<lparr>name = JStr (str ''demo''), tracks = [padded_queen]\<rparr>
      (str '' Queen'') = []"
    and "get_tracks_by_artist \<lparr>name = JStr (str ''demo''), tracks = [padded_queen]\<rparr>
      (str ''Queen'') = []"
    by (simp_all add: get_tracks_by_artist_def padded_queen_def strip_queries lower_latin)
  with v show ?thesis by (simp add: padded_queen_def)
qed

lemma strip_blanks_around:
  assumes l: "\<forall>c\<in>set l. isspace c" and r: "\<forall>c\<in>set r. isspace c"
  shows "strip (l @ a @ r) = strip a"
proof -
  have front: "dropWhile isspace (l @ a @ r) = dropWhile isspace (a @ r)"
    using l by (simp add: dropWhile_append2)
  show ?thesis
  proof (cases "\<forall>c\<in>set a. isspace c")
    case True
    then have "\<forall>c\<in>set (a @ r). isspace c" using r by auto
    then have e1: "dropWhile isspace (a @ r) = []" by (simp only: dropWhile_eq_Nil_conv)
    from True have e2: "dropWhile isspace a = []" by (simp only: dropWhile_eq_Nil_conv)
    show ?thesis unfolding strip_def front e1 e2 by simp
  next
    case False
    then obtain c where "c \<in> set a" "\<not> isspace c" by blast
    then have e: "dropWhile isspace (a @ r) = dropWhile isspace a @ r"
      by (simp add: dropWhile_append1)
    have "dropWhile isspace (rev r @ rev (dropWhile isspace a)) =
        dropWhile isspace (rev (dropWhile isspace a))"
    proof (rule dropWhile_append2)
      fix x assume "x \<in> set (rev r)"
      then show "isspace x" using r by simp
    qed
    then show ?thesis
      unfolding strip_def front e by simp
  qed
qed

text \<open>
  C5, amended. For every playlist and query, \<open>get_tracks_by_artist\<close> returns, in their
  original order, exactly the tracks whose artist in lower case equals the query trimmed
  and in lower case; the artist stored in the track is not trimmed. Whitespace around
  the query makes no difference. A track of the artist Queen that is added to a playlist
  is returned for the query of two blanks, queen, two blanks, and a track of the band
  Kino, written in Russian with a capital letter, for the same name in small letters.
\<close>

theorem get_tracks_by_artist_filter:
  "get_tracks_by_artist p a = filter (\<lambda>t. lower (artist t) = lower (strip a)) (tracks p) \<and>
   ((\<forall>c\<in>set l \<union> set r. isspace c) \<longrightarrow>
      get_tracks_by_artist p (l @ a @ r) = get_tracks_by_artist p a) \<and>
   get_tracks_by_artist (add_track p bohemian) (str ''  queen  '') =
     get_tracks_by_artist p (str ''  queen  '') @ [bohemian] \<and>
   get_tracks_by_artist (add_track p kino) [1082, 1080, 1085, 1086] =
     get_tracks_by_artist p [1082, 1080, 1085, 1086] @ [kino]"
proof -
  have "(\<forall>c\<in>set l \<union> set r. isspace c) \<longrightarrow>
      get_tracks_by_artist p (l @ a @ r) = get_tracks_by_artist p a"
    by (simp add: get_tracks_by_artist_def strip_blanks_around)
  moreover have "get_tracks_by_artist (add_track p bohemian) (str ''  queen  '') =
     get_tracks_by_artist p (str ''  queen  '') @ [bohemian]"
    by (simp add: get_tracks_by_artist_def add_track_def bohemian_def strip_queries lower_latin)
  moreover have "get_tracks_by_artist (add_track p kino) [1082, 1080, 1085, 1086] =
     get_tracks_by_artist p [1082, 1080, 1085, 1086] @ [kino]"
    by (simp add: get_tracks_by_artist_def add_track_def kino_def strip_queries lower_kino)
  ultimately show ?thesis
    by (simp add: get_tracks_by_artist_def)
qed

theorem get_tracks_by_artist_filter_witness:
  "list_all isspace (str ''  '') \<and>
   get_tracks_by_artist demo (str ''  '' @ str ''queen'' @ str ''  '') = [bohemian] \<and>
   get_tracks_by_artist (add_track demo bohemian) (str ''  queen  '') = [bohemian, bohemian] \<and>
   get_tracks_by_artist (add_track demo kino) [1082, 1080, 1085, 1086] = [kino]"
proof -
  have h: "\<forall>c\<in>set (str ''  '') \<union> set (str ''  ''). isspace c"
    by (simp add: str_def isspace_def)
  have q: "str ''john lennon'' \<noteq> str ''queen''" "str ''dave brubeck'' \<noteq> str ''queen''"
    "str ''queen'' \<noteq> [1082, 1080, 1085, 1086]"
    "str ''john lennon'' \<noteq> [1082, 1080, 1085, 1086]"
    "str ''dave brubeck'' \<noteq> [1082, 1080, 1085, 1086]"
    by (simp_all add: str_def)
  have e: "str ''  '' @ str ''queen'' @ str ''  '' = str ''  queen  ''"
    by (simp add: str_def)
  have d: "get_tracks_by_artist demo (str ''queen'') = [bohemian]"
    "get_tracks_by_artist demo (str ''  queen  '') = [bohemian]"
    "get_tracks_by_artist demo [1082, 1080, 1085, 1086] = []"
    using q
    by (simp_all add: get_tracks_by_artist_def demo_def bohemian_def take_five_def imagine_def
          strip_queries lower_latin lower_kino)
  show ?thesis
    using get_tracks_by_artist_filter [of demo "str ''queen''" "str ''  ''" "str ''  ''"] h
    by (simp add: d e list_all_iff)
qed

section \<open>Reading a record\<close>

subsection \<open>The duration text\<close>

lemma from_dict_duration:
  "getitem data (str ''duration'') = Inr (JStr text) \<Longrightarrow>
   from_dict data = (case parse_parts text of Inl e \<Rightarrow> Inl e | Inr d \<Rightarrow> make_track data d)"
  by (simp add: from_dict_def)

lemma parse_parts_two:
  "split 58 text = [a, b] \<Longrightarrow>
   parse_parts text =
     (case py_int a of
        Inl e \<Rightarrow> Inl e
      | Inr m \<Rightarrow>
          (case py_int b of
             Inl e \<Rightarrow> Inl e
           | Inr s \<Rightarrow>
               if td_in_range (Microseconds ((m * 60 + s) * 1000000))
               then Inr (Microseconds ((m * 60 + s) * 1000000)) else Inl OverflowError))"
  by (simp add: parse_parts_def timedelta_new_def split: sum.split)

lemma parse_parts_three:
  "split 58 text = [a, b, c] \<Longrightarrow>
   parse_parts text =
     (case py_int a of
        Inl e \<Rightarrow> Inl e
      | Inr h \<Rightarrow>
          (case py_int b of
             Inl e \<Rightarrow> Inl e
           | Inr m \<Rightarrow>
               (case py_int c of
                  Inl e \<Rightarrow> Inl e
                | Inr s \<Rightarrow>
                    if td_in_range (Microseconds ((h * 3600 + m * 60 + s) * 1000000))
                    then Inr (Microseconds ((h * 3600 + m * 60 + s) * 1000000))
                    else Inl OverflowError)))"
  by (simp add: parse_parts_def timedelta_new_def split: sum.split)

lemma parse_parts_other:
  "length (split 58 text) \<noteq> 2 \<Longrightarrow> length (split 58 text) \<noteq> 3 \<Longrightarrow>
   parse_parts text = Inl (ValueError (BadDurationFormat text))"
  by (simp add: parse_parts_def)

lemma split_bad: "split 58 (str ''bad'') = [str ''bad'']"
  "split 58 (str ''1:2:3:4'') = [str ''1'', str ''2'', str ''3'', str ''4'']"
  by (simp_all add: str_def)

lemma duration_first: "getitem (JObj ((str ''duration'', v) # kvs)) (str ''duration'') = Inr v"
  by (simp add: getitem_def)

lemma py_int_55: "py_int (str ''5'') = Inr 5" "py_int (str ''55'') = Inr 55"
  by (simp_all add: py_int_def int_unsigned_def isdigit_def int_space_def isspace_def str_def)

text \<open>
  C6. \<open>from_dict\<close> splits the duration text at the colons. Exactly two parts are read
  as minutes and seconds, exactly three as hours, minutes and seconds, each part by
  \<open>int\<close>; any other number of parts raises the \<open>ValueError\<close> with the format message,
  which is none of the errors of the constructor's checks. The texts bad (one part) and
  1:2:3:4 (four parts) fail with the format message, whatever else the record holds.
\<close>

theorem duration_text_parts:
  assumes "getitem data (str ''duration'') = Inr (JStr text)"
  shows
    "(\<forall>a b. split 58 text = [a, b] \<longrightarrow>
        from_dict data =
          (case py_int a of
             Inl e \<Rightarrow> Inl e
           | Inr m \<Rightarrow>
               (case py_int b of
                  Inl e \<Rightarrow> Inl e
                | Inr s \<Rightarrow>
                    if td_in_range (Microseconds ((m * 60 + s) * 1000000))
                    then make_track data (Microseconds ((m * 60 + s) * 1000000))
                    else Inl OverflowError))) \<and>
     (\<forall>a b c. split 58 text = [a, b, c] \<longrightarrow>
        from_dict data =
          (case py_int a of
             Inl e \<Rightarrow> Inl e
           | Inr h \<Rightarrow>
               (case py_int b of
                  Inl e \<Rightarrow> Inl e
                | Inr m \<Rightarrow>
                    (case py_int c of
                       Inl e \<Rightarrow> Inl e
                     | Inr s \<Rightarrow>
                         if td_in_range (Microseconds ((h * 3600 + m * 60 + s) * 1000000))
                         then make_track data (Microseconds ((h * 3600 + m * 60 + s) * 1000000))
                         else Inl OverflowError)))) \<and>
     (length (split 58 text) \<noteq> 2 \<and> length (split 58 text) \<noteq> 3 \<longrightarrow>
        from_dict data = Inl (ValueError (BadDurationFormat text))) \<and>
     ValueError (BadDurationFormat text) \<notin> set validation_errors \<and>
     from_dict (JObj ((str ''duration'', JStr (str ''bad'')) # kvs)) =
       Inl (ValueError (BadDurationFormat (str ''bad''))) \<and>
     from_dict (JObj ((str ''duration'', JStr (str ''1:2:3:4'')) # kvs)) =
       Inl (ValueError (BadDurationFormat (str ''1:2:3:4'')))"
proof -
  note fd = from_dict_duration [OF assms]
  have two: "\<forall>a b. split 58 text = [a, b] \<longrightarrow>
        from_dict data =
          (case py_int a of
             Inl e \<Rightarrow> Inl e
           | Inr m \<Rightarrow>
               (case py_int b of
                  Inl e \<Rightarrow> Inl e
                | Inr s \<Rightarrow>
                    if td_in_range (Microseconds ((m * 60 + s) * 1000000))
                    then make_track data (Microseconds ((m * 60 + s) * 1000000))
                    else Inl OverflowError))"
    by (simp add: fd parse_parts_two split: sum.split)
  have three: "\<forall>a b c. split 58 text = [a, b, c] \<longrightarrow>
        from_dict data =
          (case py_int a of
             Inl e \<Rightarrow> Inl e
           | Inr h \<Rightarrow>
               (case py_int b of
                  Inl e \<Rightarrow> Inl e
                | Inr m \<Rightarrow>
                    (case py_int c of
                       Inl e \<Rightarrow> Inl e
                     | Inr s \<Rightarrow>
                         if td_in_range (Microseconds ((h * 3600 + m * 60 + s) * 1000000))
                         then make_track data (Microseconds ((h * 3600 + m * 60 + s) * 1000000))
                         else Inl OverflowError)))"
    by (simp add: fd parse_parts_three split: sum.split)
  have other: "length (split 58 text) \<noteq> 2 \<and> length (split 58 text) \<noteq> 3 \<longrightarrow>
        from_dict data = Inl (ValueError (BadDurationFormat text))"
    by (simp add: fd parse_parts_other)
  have distinct: "ValueError (BadDurationFormat text) \<notin> set validation_errors"
    by (simp add: validation_errors_def)
  have bad: "from_dict (JObj ((str ''duration'', JStr (str ''bad'')) # kvs)) =
       Inl (ValueError (BadDurationFormat (str ''bad'')))"
    by (simp add: from_dict_duration [OF duration_first] parse_parts_other split_bad)
  have four: "from_dict (JObj ((str ''duration'', JStr (str ''1:2:3:4'')) # kvs)) =
       Inl (ValueError (BadDurationFormat (str ''1:2:3:4'')))"
    by (simp add: from_dict_duration [OF duration_first] parse_parts_other split_bad)
  from two three other distinct bad four show ?thesis by blast
qed

theorem duration_text_parts_witness:
  "getitem (JObj [(str ''title'', JStr (str ''Bohemian Rhapsody'')),
                  (str ''artist'', JStr (str ''Queen'')),
                  (str ''duration'', JStr (str ''5:55''))]) (str ''duration'') =
     Inr (JStr (str ''5:55'')) \<and>
   split 58 (str ''5:55'') = [str ''5'', str ''55''] \<and>
   from_dict (JObj [(str ''title'', JStr (str ''Bohemian Rhapsody'')),
                    (str ''artist'', JStr (str ''Queen'')),
                    (str ''duration'', JStr (str ''5:55''))]) =
     Inr (bohemian\<lparr>genre := OTHER, year := None\<rparr>)"
proof -
  let ?data = "JObj [(str ''title'', JStr (str ''Bohemian Rhapsody'')),
                  (str ''artist'', JStr (str ''Queen'')),
                  (str ''duration'', JStr (str ''5:55''))]"
  have h: "getitem ?data (str ''duration'') = Inr (JStr (str ''5:55''))"
    by (simp add: getitem_def str_def)
  have sp: "split 58 (str ''5:55'') = [str ''5'', str ''55'']"
    by (simp add: str_def)
  have rg: "td_in_range (Microseconds 355000000)"
    by (simp add: td_in_range_def)
  have mk: "make_track ?data (Microseconds 355000000) = Inr (bohemian\<lparr>genre := OTHER, year := None\<rparr>)"
    by (simp add: make_track_def getitem_def genre_from_def dict_get_def all_genres_def
          Track_new_def strip_def isspace_def bohemian_def str_def)
  show ?thesis
    using duration_text_parts [OF h] h sp rg mk
    by (simp add: py_int_55)
qed

subsection \<open>The genre\<close>

lemma find_genre_unknown:
  "(\<And>g. v \<noteq> JStr (value_of g)) \<Longrightarrow> find_genre v all_genres = OTHER"
proof -
  assume a: "\<And>g. v \<noteq> JStr (value_of g)"
  have "find_genre v gs = OTHER" for gs
    using a by (induction gs) (simp_all, metis)
  then show ?thesis .
qed

lemma genre_from_eq:
  "genre_from kvs =
     (case map_of kvs (str ''genre'') of None \<Rightarrow> OTHER | Some v \<Rightarrow> find_genre v all_genres)"
  using find_genre_value_of [of OTHER]
  by (simp add: genre_from_def dict_get_def split: option.split)

lemma make_track_genre:
  "make_track (JObj kvs) d =
     map_sum id (genre_update (\<lambda>_. genre_from kvs)) (make_track (JObj kvs) d)"
  by (simp add: make_track_def Track_new_def split: sum.split json.split)

lemma genre_key_other:
  "str ''genre'' \<noteq> str ''duration''" "str ''genre'' \<noteq> str ''title''"
  "str ''genre'' \<noteq> str ''artist''" "str ''genre'' \<noteq> str ''year''"
  by (simp_all add: str_def)

lemma make_track_set_genre:
  "make_track (JObj ((str ''genre'', v) # kvs)) d =
     map_sum id (genre_update (\<lambda>_. find_genre v all_genres)) (make_track (JObj kvs) d)"
  using genre_key_other
  by (simp add: make_track_def getitem_def dict_get_def genre_from_def Track_new_def
        split: sum.split option.split json.split)

text \<open>
  C9. \<open>from_dict\<close> finds the genre by going through all members of the enumeration and
  comparing their values with the stored one. Without the key \<open>genre\<close> the genre is
  \<open>OTHER\<close>; a stored value that is the value of a member gives that member; any other
  stored value gives \<open>OTHER\<close>. The genre entry never raises: whatever is stored under
  \<open>genre\<close>, \<open>from_dict\<close> fails or succeeds as it does without the entry, and only the
  genre of the track differs.
\<close>

theorem genre_resolution:
  "genre_from kvs =
     (case map_of kvs (str ''genre'') of None \<Rightarrow> OTHER | Some v \<Rightarrow> find_genre v all_genres) \<and>
   find_genre (JStr (value_of g)) all_genres = g \<and>
   ((\<forall>g. v \<noteq> JStr (value_of g)) \<longrightarrow> find_genre v all_genres = OTHER) \<and>
   from_dict (JObj kvs) =
     map_sum id (genre_update (\<lambda>_. genre_from kvs)) (from_dict (JObj kvs)) \<and>
   from_dict (JObj ((str ''genre'', v) # kvs)) =
     map_sum id (genre_update (\<lambda>_. find_genre v all_genres)) (from_dict (JObj kvs))"
proof -
  have a: "from_dict (JObj kvs) =
     map_sum id (genre_update (\<lambda>_. genre_from kvs)) (from_dict (JObj kvs))"
    using make_track_genre [of kvs]
    by (simp add: from_dict_def split: sum.split json.split)
  have b: "from_dict (JObj ((str ''genre'', v) # kvs)) =
     map_sum id (genre_update (\<lambda>_. find_genre v all_genres)) (from_dict (JObj kvs))"
    using genre_key_other
    by (simp add: from_dict_def getitem_def make_track_set_genre split: sum.split json.split option.split)
  from a b show ?thesis
    by (simp add: genre_from_eq [symmetric] find_genre_value_of find_genre_unknown)
qed

theorem genre_resolution_witness:
  "(\<forall>g. JStr (str ''Polka'') \<noteq> JStr (value_of g)) \<and>
   from_dict (JObj ((str ''genre'', JStr (str ''Polka'')) # [(str ''title'', JStr (str ''Imagine'')),
       (str ''artist'', JStr (str ''John Lennon'')), (str ''duration'', JStr (str ''03:03'')),
       (str ''year'', JInt 1971)])) = Inr (imagine\<lparr>genre := OTHER\<rparr>) \<and>
   from_dict (JObj [(str ''title'', JStr (str ''Imagine'')),
       (str ''artist'', JStr (str ''John Lennon'')), (str ''duration'', JStr (str ''03:03'')),
       (str ''year'', JInt 1971)]) = Inr (imagine\<lparr>genre := OTHER\<rparr>)"
proof -
  let ?kvs = "[(str ''title'', JStr (str ''Imagine'')),
       (str ''artist'', JStr (str ''John Lennon'')), (str ''duration'', JStr (str ''03:03'')),
       (str ''year'', JInt 1971)]"
  have h: "\<forall>g. JStr (str ''Polka'') \<noteq> JStr (value_of g)"
  proof
    fix g show "JStr (str ''Polka'') \<noteq> JStr (value_of g)"
      by (cases g) (simp_all add: str_def)
  qed
  have fd: "from_dict (JObj ?kvs) = Inr (imagine\<lparr>genre := OTHER\<rparr>)"
    by (simp add: from_dict_def getitem_def parse_parts_def make_track_def genre_from_def
          dict_get_def all_genres_def Track_new_def strip_def isspace_def imagine_def
          py_int_def int_unsigned_def isdigit_def int_space_def timedelta_new_def td_in_range_def
          str_def)
  show ?thesis
    using genre_resolution [of ?kvs POP "JStr (str ''Polka'')"] h fd
    by simp
qed

section \<open>Statistics\<close>

lemma update_absent: "k \<notin> fst ` set d \<Longrightarrow> AList.update k v d = d @ [(k, v)]"
  by (induction d) auto

lemma genre_counts_eq:
  assumes "distinct (map value_of gs)" and "\<forall>g\<in>set gs. value_of g \<notin> fst ` set d"
  shows "genre_counts p gs d =
           d @ map (\<lambda>g. (value_of g, length (get_tracks_by_genre p g)))
                 (filter (\<lambda>g. 0 < length (get_tracks_by_genre p g)) gs)"
  using assms
proof (induction gs arbitrary: d)
  case Nil
  show ?case by simp
next
  case (Cons g gs)
  from Cons.prems have d: "distinct (map value_of gs)" and g: "value_of g \<notin> fst ` set d"
    and n: "value_of g \<notin> value_of ` set gs" and r: "\<forall>h\<in>set gs. value_of h \<notin> fst ` set d"
    by auto
  show ?case
  proof (cases "0 < length (get_tracks_by_genre p g)")
    case True
    have "\<forall>h\<in>set gs. value_of h \<noteq> value_of g"
      using n by (metis imageI)
    with r have "\<forall>h\<in>set gs. value_of h \<notin> fst ` set (d @ [(value_of g, length (get_tracks_by_genre p g))])"
      by simp
    with True d g show ?thesis
      by (simp add: Cons.IH update_absent Let_def)
  next
    case False
    with d r show ?thesis by (simp add: Cons.IH Let_def)
  qed
qed

lemma values_distinct: "distinct (map value_of all_genres)"
  by (simp add: all_genres_def str_def)

lemma positive_counts_sum:
  "sum_list (map f (filter (\<lambda>g. 0 < f g) gs)) = sum_list (map f gs)" for f :: "'a \<Rightarrow> nat"
  by (induction gs) simp_all

lemma genre_count_sum:
  "sum_list (map (\<lambda>g. length (filter (\<lambda>t. genre t = g) ts)) all_genres) = length ts"
proof (induction ts)
  case Nil
  show ?case by (simp add: all_genres_def)
next
  case (Cons t ts)
  then show ?case by (cases "genre t") (simp_all add: all_genres_def)
qed

lemma has_track_iff:
  "get_tracks_by_genre p g \<noteq> [] \<longleftrightarrow> g \<in> genre ` set (tracks p)"
  by (auto simp: get_tracks_by_genre_def filter_empty_conv)

lemma demo_total: "get_total_duration demo = Inr (Microseconds 862000000)"
  by (simp add: get_total_duration_def demo_def bohemian_def take_five_def imagine_def
        duration_seconds_def total_seconds_int_def timedelta_new_def td_in_range_def)

text \<open>
  C8, as the specification has it, speaks of every playlist. \<open>get_statistics\<close> first
  prints the total duration, and the sum of two tracks of the longest duration is no
  \<open>timedelta\<close>: the call raises and gives no statistics at all.
\<close>

theorem statistics_overflow_counterexample:
  "valid_track longest \<and> td_in_range (duration longest) \<and>
   get_statistics \<lparr>name = JStr (str ''long''), tracks = [longest, longest]\<rparr> = Inl OverflowError"
  by (simp add: valid_track_def Track_init_def Track_new_def longest_def strip_def isspace_def
        str_def td_in_range_def get_statistics_def get_total_duration_def timedelta_new_def
        duration_seconds_def total_seconds_int_def)

text \<open>
  C8, amended. For every playlist whose total duration is a \<open>timedelta\<close>, the genre
  mapping of \<open>get_statistics\<close> has exactly the genres with at least one track, under
  their display labels, in the order in which the enumeration declares them, each with
  the number of its tracks; the labels are distinct and the counts add up to the number
  of tracks.
\<close>

theorem statistics_genres:
  assumes "get_total_duration p = Inr td"
  shows "(case get_statistics p of
            Inl e \<Rightarrow> False
          | Inr s \<Rightarrow>
              genres s =
                map (\<lambda>g. (value_of g, length (get_tracks_by_genre p g)))
                  (filter (\<lambda>g. g \<in> genre ` set (tracks p)) all_genres) \<and>
              distinct (map fst (genres s)) \<and>
              sum_list (map snd (genres s)) = total_tracks s \<and>
              total_tracks s = length (tracks p))"
proof -
  let ?c = "\<lambda>g. length (get_tracks_by_genre p g)"
  have g: "genre_counts p all_genres [] =
      map (\<lambda>g. (value_of g, ?c g)) (filter (\<lambda>g. 0 < ?c g) all_genres)"
    using genre_counts_eq [OF values_distinct, of "[]" p] by simp
  have sm: "sum_list (map snd (genre_counts p all_genres [])) = length (tracks p)"
    using positive_counts_sum [of ?c all_genres] genre_count_sum [of "tracks p"]
    by (simp add: g comp_def get_tracks_by_genre_def)
  have ds: "distinct (map fst (genre_counts p all_genres []))"
    using values_distinct distinct_map_filter [of value_of all_genres]
    by (simp add: g comp_def)
  show ?thesis
    using assms sm ds g by (simp add: get_statistics_def has_track_iff)
qed

theorem statistics_genres_witness:
  "get_total_duration demo = Inr (Microseconds 862000000) \<and>
   map_sum id genres (get_statistics demo) =
     Inr [(value_of POP, 1), (value_of ROCK, 1), (value_of JAZZ, 1)] \<and>
   map_sum id total_tracks (get_statistics demo) = Inr 3"
proof -
  have f: "filter (\<lambda>g. g \<in> genre ` set (tracks demo)) all_genres = [POP, ROCK, JAZZ]"
    by (simp add: demo_def bohemian_def take_five_def imagine_def all_genres_def)
  have c: "length (get_tracks_by_genre demo POP) = 1" "length (get_tracks_by_genre demo ROCK) = 1"
    "length (get_tracks_by_genre demo JAZZ) = 1" "length (tracks demo) = 3"
    by (simp_all add: get_tracks_by_genre_def demo_def bohemian_def take_five_def imagine_def)
  show ?thesis
    using statistics_genres [OF demo_total] demo_total
    by (cases "get_statistics demo") (simp_all add: f c)
qed

end
